theory Spec2Isabelle
  imports Complex_Main "HOL-Library.Word"
begin

unbundle bit_operations_syntax

section \<open>Strings, time and errors\<close>

text \<open>
  Go strings are byte sequences and are modelled by \<open>string\<close>. The standard-library
  functions \<open>strings.TrimSpace\<close>, \<open>strings.ToUpper\<close>, \<open>strings.ToLower\<close> and
  \<open>strings.EqualFold\<close> are modelled on ASCII: white space is tab, line feed, vertical
  tab, form feed, carriage return and blank, and only the letters a-z and A-Z change
  case. On ASCII text (MAC addresses, UUIDs, device families, timestamps) this is what
  the library does; bytes outside ASCII are left alone by the model.

  A \<open>time.Time\<close> is an integer number of nanoseconds, a \<open>time.Duration\<close> likewise;
  the zero \<open>time.Time\<close> of a map miss or of a field never set is \<open>None\<close>.
\<close>

definition isSpace :: "char \<Rightarrow> bool" where
  "isSpace c = (c = CHR 0x09 \<or> c = CHR 0x0A \<or> c = CHR 0x0B \<or> c = CHR 0x0C
                \<or> c = CHR 0x0D \<or> c = CHR '' '')"

definition TrimSpace :: "string \<Rightarrow> string" where
  "TrimSpace s = rev (dropWhile isSpace (rev (dropWhile isSpace s)))"

definition toUpperChar :: "char \<Rightarrow> char" where
  "toUpperChar c =
     (let n = (of_char c :: nat) in if 97 \<le> n \<and> n \<le> 122 then char_of (n - 32) else c)"

definition toLowerChar :: "char \<Rightarrow> char" where
  "toLowerChar c =
     (let n = (of_char c :: nat) in if 65 \<le> n \<and> n \<le> 90 then char_of (n + 32) else c)"

definition ToUpper :: "string \<Rightarrow> string" where
  "ToUpper s = map toUpperChar s"

definition ToLower :: "string \<Rightarrow> string" where
  "ToLower s = map toLowerChar s"

definition EqualFold :: "string \<Rightarrow> string \<Rightarrow> bool" where
  "EqualFold a b = (ToLower a = ToLower b)"

definition Second :: int where
  "Second = 1000000000"

definition Minute :: int where
  "Minute = 60 * Second"

datatype error = EmptyMAC | SqlError

section \<open>The store (internal/db/store.go)\<close>

text \<open>
  Each table is a map from its key to a row, or a list of rows where the table is
  append-only. A nullable column is an \<open>option\<close>. The \<open>devices\<close> table is keyed by
  its \<open>mac\<close> column: every function of the store normalises the address before it
  reaches SQL, so the keys are upper-case and the NOCASE collation of the column
  compares them as plain strings.
\<close>

definition normalizeMAC :: "string \<Rightarrow> string" where
  "normalizeMAC mac = ToUpper (TrimSpace mac)"

record device_row =
  dev_id :: int
  dev_session_id :: "int option"
  dev_device_type :: "string option"
  dev_name :: "string option"
  dev_mac_type :: "string option"
  dev_mac_subtype :: "string option"
  dev_rssi :: "int option"
  dev_service :: "string option"
  dev_timestamp :: "string option"
  dev_adapter :: "string option"
  dev_manufacturer_data :: "string option"
  dev_manufacturer_name :: "string option"
  dev_service_uuids :: "string option"
  dev_service_data :: "string option"
  dev_tx_power :: "string option"
  dev_platform_data :: "string option"
  dev_advertisement_json :: "string option"
  dev_last_adv_id :: "int option"
  dev_gps :: "string option"
  dev_detection_count :: int
  dev_last_count_update :: "string option"
  dev_tag :: "string option"
  dev_type :: "string option"

record adv_row =
  adv_id :: int
  adv_session_id :: "int option"
  adv_device_id :: int
  adv_mac :: string
  adv_timestamp :: string
  adv_rssi :: "int option"
  adv_raw :: "string option"
  adv_json :: "string option"

record gps_hist_row =
  gh_session_id :: "int option"
  gh_mac :: string
  gh_timestamp :: string
  gh_lat :: "rat option"
  gh_lon :: "rat option"
  gh_gps_text :: string
  gh_is_cached :: int
  gh_source :: "string option"

record gatt_char_row =
  gc_service_handle :: "int option"
  gc_char_handle :: "int option"
  gc_flags_json :: "string option"
  gc_value_hex :: "string option"
  gc_value_ascii :: "string option"
  gc_read_error :: "string option"
  gc_last_read_at :: "string option"

record classic_row =
  cl_class :: "int option"
  cl_icon :: "string option"
  cl_paired :: "int option"
  cl_trusted :: "int option"
  cl_connected :: "int option"
  cl_blocked :: "int option"
  cl_legacy_pairing :: "int option"
  cl_modalias :: "string option"
  cl_uuids :: "string option"
  cl_last_seen :: "string option"
  cl_props_json :: "string option"

record classic_disc_row =
  cd_session_id :: "int option"
  cd_mac :: string
  cd_timestamp :: string
  cd_rssi :: "int option"
  cd_class :: "int option"
  cd_props_json :: "string option"

record Store =
  devices :: "string \<rightharpoonup> device_row"
  devices_seq :: int
  advertisements :: "adv_row list"
  advertisements_seq :: int
  gatt_services :: "string \<rightharpoonup> string option"
  gatt_characteristics :: "(string \<times> string \<times> string) \<rightharpoonup> gatt_char_row"
  classic_devices :: "string \<rightharpoonup> classic_row"
  classic_discoveries :: "classic_disc_row list"
  device_gps_history :: "gps_hist_row list"
  foreign_keys :: bool
  gpsHistLast :: "string \<rightharpoonup> string"
  gpsHistLastAt :: "string \<rightharpoonup> int"

record SaveParams =
  SessionID :: "int option"
  DeviceType :: "string option"
  Name :: "string option"
  MAC :: string
  MACType :: "string option"
  MACSubType :: "string option"
  RSSI :: "int option"
  Timestamp :: "string option"
  Adapter :: "string option"
  ManufacturerData :: "string option"
  ManufacturerName :: "string option"
  ServiceUUIDs :: "string option"
  ServiceData :: "string option"
  TxPower :: "string option"
  PlatformData :: "string option"
  AdvertisementJSON :: "string option"
  LastAdvID :: "int option"
  GPS :: "string option"
  ServiceList :: "string option"
  UpdateExisting :: bool
  Tag :: "string option"
  MarkedType :: "string option"

text \<open>\<open>sql.NullString.String\<close>: the empty string for NULL.\<close>

definition nullString :: "string option \<Rightarrow> string" where
  "nullString v = (case v of None \<Rightarrow> [] | Some s \<Rightarrow> s)"

text \<open>An optional parameter sets its column only when it is given.\<close>

definition setIf :: "'a option \<Rightarrow> 'a option \<Rightarrow> 'a option" where
  "setIf p old = (case p of None \<Rightarrow> old | Some v \<Rightarrow> Some v)"

text \<open>The merge of the stored \<open>device_type\<close> with the incoming one (lines 565-583).\<close>

definition mergeDeviceType :: "string option \<Rightarrow> string option \<Rightarrow> string" where
  "mergeDeviceType existingType pDeviceType =
     (let typeStr = TrimSpace (nullString existingType) in
      case pDeviceType of
        None \<Rightarrow> typeStr
      | Some dt \<Rightarrow>
          (let incoming = TrimSpace dt in
           if incoming \<noteq> [] then
             (if typeStr = [] then incoming
              else if EqualFold typeStr ''dual'' then typeStr
              else if EqualFold incoming ''dual'' then ''dual''
              else if \<not> EqualFold typeStr incoming then ''dual''
              else typeStr)
           else typeStr))"

text \<open>
  The detection counter (lines 585-599). \<open>time.Parse\<close> with the layout
  \<open>2006-01-02 15:04:05\<close> is the parameter \<open>parse\<close>: \<open>None\<close> is a parse error.
\<close>

definition bumpCount :: "(string \<Rightarrow> int option) \<Rightarrow> int \<Rightarrow> string \<Rightarrow> string \<Rightarrow> int \<times> string" where
  "bumpCount parse count lastUpdateStr ts =
     (if lastUpdateStr = [] then (count + 1, ts)
      else case (parse lastUpdateStr, parse ts) of
             (Some prev, Some cur) \<Rightarrow>
               if cur - prev \<ge> 30 * Minute then (count + 1, ts) else (count, lastUpdateStr)
           | _ \<Rightarrow> (count + 1, ts))"

text \<open>The \<open>UPDATE devices SET ... WHERE mac = ?\<close> of the update path (lines 601-698).\<close>

definition updateRow :: "(string \<Rightarrow> int option) \<Rightarrow> SaveParams \<Rightarrow> string \<Rightarrow> device_row \<Rightarrow> device_row" where
  "updateRow parse p ts r =
     (let typeStr = mergeDeviceType (dev_device_type r) (DeviceType p);
          (count, lastUpdateStr) =
             bumpCount parse (dev_detection_count r) (nullString (dev_last_count_update r)) ts
      in r\<lparr> dev_name := setIf (Name p) (dev_name r),
             dev_mac_type := setIf (MACType p) (dev_mac_type r),
             dev_mac_subtype := setIf (MACSubType p) (dev_mac_subtype r),
             dev_session_id := setIf (SessionID p) (dev_session_id r),
             dev_device_type := (if typeStr \<noteq> [] then Some typeStr else dev_device_type r),
             dev_rssi := setIf (RSSI p) (dev_rssi r),
             dev_timestamp := Some ts,
             dev_adapter := setIf (Adapter p) (dev_adapter r),
             dev_manufacturer_data := setIf (ManufacturerData p) (dev_manufacturer_data r),
             dev_manufacturer_name := setIf (ManufacturerName p) (dev_manufacturer_name r),
             dev_service_uuids := setIf (ServiceUUIDs p) (dev_service_uuids r),
             dev_service_data := setIf (ServiceData p) (dev_service_data r),
             dev_tx_power := setIf (TxPower p) (dev_tx_power r),
             dev_platform_data := setIf (PlatformData p) (dev_platform_data r),
             dev_advertisement_json := setIf (AdvertisementJSON p) (dev_advertisement_json r),
             dev_last_adv_id := setIf (LastAdvID p) (dev_last_adv_id r),
             dev_gps := setIf (GPS p) (dev_gps r),
             dev_service := setIf (ServiceList p) (dev_service r),
             dev_detection_count := count,
             dev_last_count_update := Some lastUpdateStr,
             dev_tag := setIf (Tag p) (dev_tag r),
             dev_type := (case MarkedType p of
                            None \<Rightarrow> dev_type r
                          | Some m \<Rightarrow> if TrimSpace m \<noteq> [] then Some (TrimSpace m) else dev_type r) \<rparr>)"

text \<open>
  The insert path (lines 702-736). The statement names the columns of
  \<open>insert_columns\<close> and has \<open>insert_placeholders\<close> question marks after VALUES; SQLite
  compiles an INSERT only when the two numbers agree, and otherwise the call returns
  the error and writes nothing.
\<close>

definition insert_columns :: "string list" where
  "insert_columns =
     [''session_id'', ''device_type'', ''name'', ''mac'', ''mac_type'', ''mac_subtype'', ''rssi'',
      ''timestamp'', ''adapter'', ''manufacturer_data'',
      ''manufacturer_name'', ''service_uuids'', ''service_data'', ''tx_power'', ''platform_data'',
      ''gps'',
      ''advertisement_json'',
      ''last_adv_id'',
      ''service'', ''detection_count'', ''last_count_update'', ''tag'', ''type'']"

definition insert_placeholders :: nat where
  "insert_placeholders = 24"

definition insertRow :: "SaveParams \<Rightarrow> string \<Rightarrow> int \<Rightarrow> device_row" where
  "insertRow p ts newid =
     \<lparr> dev_id = newid,
       dev_session_id = SessionID p,
       dev_device_type = DeviceType p,
       dev_name = Name p,
       dev_mac_type = MACType p,
       dev_mac_subtype = MACSubType p,
       dev_rssi = RSSI p,
       dev_service = ServiceList p,
       dev_timestamp = Some ts,
       dev_adapter = Adapter p,
       dev_manufacturer_data = ManufacturerData p,
       dev_manufacturer_name = ManufacturerName p,
       dev_service_uuids = ServiceUUIDs p,
       dev_service_data = ServiceData p,
       dev_tx_power = TxPower p,
       dev_platform_data = PlatformData p,
       dev_advertisement_json = AdvertisementJSON p,
       dev_last_adv_id = LastAdvID p,
       dev_gps = GPS p,
       dev_detection_count = 1,
       dev_last_count_update = Some ts,
       dev_tag = Tag p,
       dev_type = MarkedType p \<rparr>"

definition insertDevice :: "Store \<Rightarrow> SaveParams \<Rightarrow> string \<Rightarrow> string \<Rightarrow> error option \<times> Store" where
  "insertDevice s p mac ts =
     (if length insert_columns \<noteq> insert_placeholders then (Some SqlError, s)
      else case devices s mac of
             Some _ \<Rightarrow> (None, s)
           | None \<Rightarrow>
               (None, s\<lparr> devices := (devices s)(mac \<mapsto> insertRow p ts (devices_seq s + 1)),
                         devices_seq := devices_seq s + 1 \<rparr>))"

text \<open>
  \<open>SaveDevice\<close>: \<open>nowStr\<close> is the formatted \<open>time.Now()\<close> that replaces a missing
  timestamp.
\<close>

definition SaveDevice :: "(string \<Rightarrow> int option) \<Rightarrow> string \<Rightarrow> Store \<Rightarrow> SaveParams \<Rightarrow> error option \<times> Store" where
  "SaveDevice parse nowStr s p =
     (let mac = normalizeMAC (MAC p) in
      if mac = [] then (Some EmptyMAC, s)
      else
        let ts = (case Timestamp p of None \<Rightarrow> nowStr | Some t \<Rightarrow> t) in
        if UpdateExisting p then
          (case devices s mac of
             None \<Rightarrow> insertDevice s p mac ts
           | Some r \<Rightarrow> (None, s\<lparr> devices := (devices s)(mac \<mapsto> updateRow parse p ts r) \<rparr>))
        else insertDevice s p mac ts)"

text \<open>
  \<open>UpdateDeviceGPS\<close> and \<open>UpdateDeviceMarkedType\<close> (lines 794-828): an UPDATE of
  one column, which changes nothing when no row has the address.
\<close>

definition UpdateDeviceGPS :: "Store \<Rightarrow> string \<Rightarrow> string \<Rightarrow> Store" where
  "UpdateDeviceGPS s mac0 gpsText0 =
     (let mac = normalizeMAC mac0 in
      if mac = [] then s
      else let gpsText = TrimSpace gpsText0 in
        if gpsText = [] then s
        else case devices s mac of
               None \<Rightarrow> s
             | Some r \<Rightarrow> s\<lparr> devices := (devices s)(mac \<mapsto> r\<lparr> dev_gps := Some gpsText \<rparr>) \<rparr>)"

definition UpdateDeviceMarkedType :: "Store \<Rightarrow> string \<Rightarrow> string \<Rightarrow> Store" where
  "UpdateDeviceMarkedType s mac0 markedType0 =
     (let mac = normalizeMAC mac0 in
      if mac = [] then s
      else let markedType = TrimSpace markedType0 in
        if markedType = [] then s
        else case devices s mac of
               None \<Rightarrow> s
             | Some r \<Rightarrow> s\<lparr> devices := (devices s)(mac \<mapsto> r\<lparr> dev_type := Some markedType \<rparr>) \<rparr>)"

definition UpdateDeviceLastAdvID :: "Store \<Rightarrow> string \<Rightarrow> int \<Rightarrow> Store" where
  "UpdateDeviceLastAdvID s mac0 advID =
     (let mac = normalizeMAC mac0 in
      if mac = [] \<or> advID \<le> 0 then s
      else case devices s mac of
             None \<Rightarrow> s
           | Some r \<Rightarrow> s\<lparr> devices := (devices s)(mac \<mapsto> r\<lparr> dev_last_adv_id := Some advID \<rparr>) \<rparr>)"

text \<open>
  \<open>RecordDeviceGPSHistoryIfChanged\<close> (lines 834-876). \<open>nowSince\<close> is the clock read
  by \<open>time.Since\<close>, \<open>nowStamp\<close> the clock read after the INSERT. The history table
  has a foreign key on \<open>devices(mac)\<close>, checked when the connection has
  \<open>foreign_keys\<close> on: the INSERT then fails for an address without a device row, the
  error is returned and the cache is left as it was.
\<close>

definition minInterval :: int where
  "minInterval = 30 * Second"

definition RecordDeviceGPSHistoryIfChanged ::
  "int \<Rightarrow> int \<Rightarrow> Store \<Rightarrow> int option \<Rightarrow> string \<Rightarrow> string \<Rightarrow> rat option \<Rightarrow> rat option
     \<Rightarrow> string \<Rightarrow> bool \<Rightarrow> string option \<Rightarrow> error option \<times> Store" where
  "RecordDeviceGPSHistoryIfChanged nowSince nowStamp s sessionID mac0 timestamp lat lon gpsText0
       isCached source =
     (let mac = normalizeMAC mac0 in
      if mac = [] then (None, s)
      else let gpsText = TrimSpace gpsText0 in
        if gpsText = [] then (None, s)
        else
          let lastTxt = (case gpsHistLast s mac of None \<Rightarrow> [] | Some t \<Rightarrow> t) in
          if lastTxt = gpsText \<and>
             (case gpsHistLastAt s mac of None \<Rightarrow> False | Some lastAt \<Rightarrow> nowSince - lastAt < minInterval)
          then (None, s)
          else if foreign_keys s \<and> devices s mac = None then (Some SqlError, s)
          else (None,
                s\<lparr> device_gps_history := device_gps_history s @
                       [\<lparr> gh_session_id = sessionID, gh_mac = mac, gh_timestamp = timestamp,
                          gh_lat = lat, gh_lon = lon, gh_gps_text = gpsText,
                          gh_is_cached = (if isCached then 1 else 0), gh_source = source \<rparr>],
                   gpsHistLast := (gpsHistLast s)(mac \<mapsto> gpsText),
                   gpsHistLastAt := (gpsHistLastAt s)(mac \<mapsto> nowStamp) \<rparr>))"

text \<open>\<open>HasGattServices\<close> and \<open>UpdateGattServices\<close> (lines 739-752, 892-906).\<close>

definition HasGattServices :: "Store \<Rightarrow> string \<Rightarrow> bool" where
  "HasGattServices s mac0 =
     (let mac = normalizeMAC mac0 in
      if mac = [] then False
      else case gatt_services s mac of
             Some (Some service) \<Rightarrow> service \<noteq> []
           | _ \<Rightarrow> False)"

definition UpdateGattServices :: "Store \<Rightarrow> string \<Rightarrow> string \<Rightarrow> Store" where
  "UpdateGattServices s mac0 services =
     (let mac = normalizeMAC mac0 in
      if mac = [] then s
      else s\<lparr> gatt_services := (gatt_services s)(mac \<mapsto> Some services) \<rparr>)"

text \<open>
  \<open>UpsertGattCharacteristic\<close> (lines 908-953): INSERT with
  \<open>ON CONFLICT(mac, service_uuid, char_uuid) DO UPDATE\<close>, where \<open>COALESCE(new, old)\<close>
  is the new value unless it is NULL.
\<close>

record GattCharacteristicParams =
  gp_MAC :: string
  gp_ServiceUUID :: string
  gp_ServiceHandle :: "16 word option"
  gp_CharUUID :: string
  gp_CharHandle :: "16 word option"
  gp_FlagsJSON :: "string option"
  gp_ValueHex :: "string option"
  gp_ValueASCII :: "string option"
  gp_ReadError :: "string option"
  gp_LastReadAt :: string

definition COALESCE :: "'a option \<Rightarrow> 'a option \<Rightarrow> 'a option" where
  "COALESCE a b = (case a of Some v \<Rightarrow> Some v | None \<Rightarrow> b)"

definition optUint16 :: "16 word option \<Rightarrow> int option" where
  "optUint16 p = map_option uint p"

definition UpsertGattCharacteristic :: "Store \<Rightarrow> GattCharacteristicParams \<Rightarrow> Store" where
  "UpsertGattCharacteristic s p =
     (let mac = normalizeMAC (gp_MAC p) in
      if mac = [] \<or> TrimSpace (gp_ServiceUUID p) = [] \<or> TrimSpace (gp_CharUUID p) = [] then s
      else
        let key = (mac, TrimSpace (gp_ServiceUUID p), TrimSpace (gp_CharUUID p));
            excluded = \<lparr> gc_service_handle = optUint16 (gp_ServiceHandle p),
                         gc_char_handle = optUint16 (gp_CharHandle p),
                         gc_flags_json = gp_FlagsJSON p,
                         gc_value_hex = gp_ValueHex p,
                         gc_value_ascii = gp_ValueASCII p,
                         gc_read_error = gp_ReadError p,
                         gc_last_read_at = Some (gp_LastReadAt p) \<rparr>
        in case gatt_characteristics s key of
             None \<Rightarrow> s\<lparr> gatt_characteristics := (gatt_characteristics s)(key \<mapsto> excluded) \<rparr>
           | Some old \<Rightarrow>
               s\<lparr> gatt_characteristics := (gatt_characteristics s)(key \<mapsto>
                    \<lparr> gc_service_handle = COALESCE (gc_service_handle excluded) (gc_service_handle old),
                      gc_char_handle = COALESCE (gc_char_handle excluded) (gc_char_handle old),
                      gc_flags_json = COALESCE (gc_flags_json excluded) (gc_flags_json old),
                      gc_value_hex = COALESCE (gc_value_hex excluded) (gc_value_hex old),
                      gc_value_ascii = COALESCE (gc_value_ascii excluded) (gc_value_ascii old),
                      gc_read_error = gc_read_error excluded,
                      gc_last_read_at = gc_last_read_at excluded \<rparr>) \<rparr>)"

text \<open>
  \<open>InsertAdvertisement\<close> (lines 1053-1093): the device id is looked up by address, and
  a minimal device row is created when there is none; its \<open>detection_count\<close> is the
  column default 1 and its \<open>last_count_update\<close> is NULL.
\<close>

record AdvertisementParams =
  ap_SessionID :: "int option"
  ap_MAC :: string
  ap_Timestamp :: string
  ap_RSSI :: "int option"
  ap_Raw :: "string option"
  ap_JSON :: "string option"

definition stubRow :: "AdvertisementParams \<Rightarrow> int \<Rightarrow> device_row" where
  "stubRow p newid =
     \<lparr> dev_id = newid,
       dev_session_id = ap_SessionID p,
       dev_device_type = Some ''ble'',
       dev_name = Some ''Unknown'',
       dev_mac_type = None,
       dev_mac_subtype = None,
       dev_rssi = ap_RSSI p,
       dev_service = None,
       dev_timestamp = Some (ap_Timestamp p),
       dev_adapter = None,
       dev_manufacturer_data = None,
       dev_manufacturer_name = None,
       dev_service_uuids = None,
       dev_service_data = None,
       dev_tx_power = None,
       dev_platform_data = None,
       dev_advertisement_json = None,
       dev_last_adv_id = None,
       dev_gps = None,
       dev_detection_count = 1,
       dev_last_count_update = None,
       dev_tag = None,
       dev_type = None \<rparr>"

definition InsertAdvertisement :: "Store \<Rightarrow> AdvertisementParams \<Rightarrow> int \<times> Store" where
  "InsertAdvertisement s p =
     (let mac = normalizeMAC (ap_MAC p) in
      if mac = [] then (0, s)
      else
        let s1 = (case devices s mac of
                    Some _ \<Rightarrow> s
                  | None \<Rightarrow> s\<lparr> devices := (devices s)(mac \<mapsto> stubRow p (devices_seq s + 1)),
                                devices_seq := devices_seq s + 1 \<rparr>);
            devID = (case devices s1 mac of Some r \<Rightarrow> dev_id r | None \<Rightarrow> 0);
            newid = advertisements_seq s1 + 1
        in (newid,
            s1\<lparr> advertisements := advertisements s1 @
                   [\<lparr> adv_id = newid, adv_session_id = ap_SessionID p, adv_device_id = devID,
                      adv_mac = mac, adv_timestamp = ap_Timestamp p, adv_rssi = ap_RSSI p,
                      adv_raw = ap_Raw p, adv_json = ap_JSON p \<rparr>],
                 advertisements_seq := newid \<rparr>))"

text \<open>\<open>UpsertClassicInfo\<close> and \<open>InsertClassicDiscovery\<close> (lines 1095-1178).\<close>

definition UpsertClassicInfo :: "Store \<Rightarrow> string \<Rightarrow> classic_row \<Rightarrow> Store" where
  "UpsertClassicInfo s mac0 excluded =
     (let mac = normalizeMAC mac0 in
      if mac = [] then s
      else case classic_devices s mac of
             None \<Rightarrow> s\<lparr> classic_devices := (classic_devices s)(mac \<mapsto> excluded) \<rparr>
           | Some old \<Rightarrow>
               s\<lparr> classic_devices := (classic_devices s)(mac \<mapsto>
                    \<lparr> cl_class = COALESCE (cl_class excluded) (cl_class old),
                      cl_icon = COALESCE (cl_icon excluded) (cl_icon old),
                      cl_paired = COALESCE (cl_paired excluded) (cl_paired old),
                      cl_trusted = COALESCE (cl_trusted excluded) (cl_trusted old),
                      cl_connected = COALESCE (cl_connected excluded) (cl_connected old),
                      cl_blocked = COALESCE (cl_blocked excluded) (cl_blocked old),
                      cl_legacy_pairing = COALESCE (cl_legacy_pairing excluded) (cl_legacy_pairing old),
                      cl_modalias = COALESCE (cl_modalias excluded) (cl_modalias old),
                      cl_uuids = COALESCE (cl_uuids excluded) (cl_uuids old),
                      cl_last_seen = COALESCE (cl_last_seen excluded) (cl_last_seen old),
                      cl_props_json = COALESCE (cl_props_json excluded) (cl_props_json old) \<rparr>) \<rparr>)"

definition InsertClassicDiscovery :: "Store \<Rightarrow> classic_disc_row \<Rightarrow> Store" where
  "InsertClassicDiscovery s p =
     (let mac = normalizeMAC (cd_mac p) in
      if mac = [] then s
      else s\<lparr> classic_discoveries := classic_discoveries s @ [p\<lparr> cd_mac := mac \<rparr>] \<rparr>)"

text \<open>
  A parser for the fixed-width form \<open>YYYY-MM-DD HH:MM:SS\<close> that
  \<open>util.NowTimestamp\<close> writes, giving nanoseconds since 1970-01-01 00:00:00. It
  stands for \<open>time.Parse\<close> where a concrete timestamp has to be read.
\<close>

definition digitVal :: "char \<Rightarrow> int option" where
  "digitVal c =
     (let n = (of_char c :: int) in if 48 \<le> n \<and> n \<le> 57 then Some (n - 48) else None)"

fun number :: "string \<Rightarrow> int option" where
  "number [] = None"
| "number [c] = digitVal c"
| "number cs =
     (case (number (butlast cs), digitVal (last cs)) of
        (Some hi, Some lo) \<Rightarrow> Some (10 * hi + lo)
      | _ \<Rightarrow> None)"

definition isLeap :: "int \<Rightarrow> bool" where
  "isLeap y = (y mod 4 = 0 \<and> (y mod 100 \<noteq> 0 \<or> y mod 400 = 0))"

definition daysIn :: "int \<Rightarrow> int \<Rightarrow> int" where
  "daysIn y m =
     (if m = 2 then (if isLeap y then 29 else 28)
      else if m = 4 \<or> m = 6 \<or> m = 9 \<or> m = 11 then 30 else 31)"

definition daysFromCivil :: "int \<Rightarrow> int \<Rightarrow> int \<Rightarrow> int" where
  "daysFromCivil y m d =
     (let y1 = (if m \<le> 2 then y - 1 else y);
          era = y1 div 400;
          yoe = y1 - era * 400;
          doy = (153 * (if m > 2 then m - 3 else m + 9) + 2) div 5 + d - 1;
          doe = yoe * 365 + yoe div 4 - yoe div 100 + doy
      in era * 146097 + doe - 719468)"

definition parseTimestamp :: "string \<Rightarrow> int option" where
  "parseTimestamp s =
     (if length s \<noteq> 19 \<or> s ! 4 \<noteq> CHR ''-'' \<or> s ! 7 \<noteq> CHR ''-'' \<or> s ! 10 \<noteq> CHR '' ''
         \<or> s ! 13 \<noteq> CHR '':'' \<or> s ! 16 \<noteq> CHR '':'' then None
      else
        case (number (take 4 s), number (take 2 (drop 5 s)), number (take 2 (drop 8 s)),
              number (take 2 (drop 11 s)), number (take 2 (drop 14 s)), number (take 2 (drop 17 s))) of
          (Some y, Some m, Some d, Some hh, Some mm, Some ss) \<Rightarrow>
            if 1 \<le> m \<and> m \<le> 12 \<and> 1 \<le> d \<and> d \<le> daysIn y m \<and> hh < 24 \<and> mm < 60 \<and> ss < 60
            then Some ((((daysFromCivil y m d * 24 + hh) * 60 + mm) * 60 + ss) * Second)
            else None
        | _ \<Rightarrow> None)"

text \<open>A run of \<open>SaveDevice\<close> calls, each with its own reading of the clock.\<close>

fun SaveDevices :: "(string \<Rightarrow> int option) \<Rightarrow> Store \<Rightarrow> (string \<times> SaveParams) list \<Rightarrow> Store" where
  "SaveDevices parse s [] = s"
| "SaveDevices parse s ((nowStr, p) # ps) = SaveDevices parse (snd (SaveDevice parse nowStr s p)) ps"

text \<open>An empty store, and the parameters of a bare save.\<close>

definition emptyStore :: Store where
  "emptyStore =
     \<lparr> devices = Map.empty, devices_seq = 0, advertisements = [], advertisements_seq = 0,
       gatt_services = Map.empty, gatt_characteristics = Map.empty,
       classic_devices = Map.empty, classic_discoveries = [], device_gps_history = [],
       foreign_keys = True, gpsHistLast = Map.empty, gpsHistLastAt = Map.empty \<rparr>"

definition saveParams :: "string \<Rightarrow> string \<Rightarrow> string \<Rightarrow> bool \<Rightarrow> SaveParams" where
  "saveParams mac family ts upd =
     \<lparr> SessionID = None, DeviceType = Some family, Name = None, MAC = mac, MACType = None,
       MACSubType = None, RSSI = None, Timestamp = Some ts, Adapter = None,
       ManufacturerData = None, ManufacturerName = None, ServiceUUIDs = None,
       ServiceData = None, TxPower = None, PlatformData = None, AdvertisementJSON = None,
       LastAdvID = None, GPS = None, ServiceList = None, UpdateExisting = upd, Tag = None,
       MarkedType = None \<rparr>"

text \<open>A store whose only device row was created for the address with family \<open>ble\<close>.\<close>

definition storeBle :: Store where
  "storeBle =
     emptyStore\<lparr> devices :=
       [''AA:BB:CC:DD:EE:01'' \<mapsto>
          stubRow \<lparr> ap_SessionID = None, ap_MAC = ''AA:BB:CC:DD:EE:01'',
                    ap_Timestamp = ''2024-01-01 00:00:00'', ap_RSSI = None, ap_Raw = None,
                    ap_JSON = None \<rparr> 1],
       devices_seq := 1 \<rparr>"

text \<open>Parameters of a characteristic upsert for one fixed service and characteristic.\<close>

definition charParams ::
  "string \<Rightarrow> 16 word option \<Rightarrow> string option \<Rightarrow> string option \<Rightarrow> string \<Rightarrow> GattCharacteristicParams" where
  "charParams mac h v e t =
     \<lparr> gp_MAC = mac, gp_ServiceUUID = ''0000180f-0000-1000-8000-00805f9b34fb'',
       gp_ServiceHandle = h, gp_CharUUID = ''00002a19-0000-1000-8000-00805f9b34fb'',
       gp_CharHandle = h, gp_FlagsJSON = v, gp_ValueHex = v, gp_ValueASCII = v,
       gp_ReadError = e, gp_LastReadAt = t \<rparr>"

definition charStore :: Store where
  "charStore =
     UpsertGattCharacteristic emptyStore
       (charParams '' aa:bb:cc:dd:ee:01'' (Some 42) (Some ''64'') (Some ''timeout'')
          ''2024-01-01 00:00:00'')"



text \<open>
  An update of the row of \<open>k\<close> whose timestamp parses to a time in the 30 minutes
  that start at \<open>lo\<close>.
\<close>

definition inWindow :: "(string \<Rightarrow> int option) \<Rightarrow> string \<Rightarrow> int \<Rightarrow> SaveParams \<Rightarrow> bool" where
  "inWindow parse k lo p =
     (normalizeMAC (MAC p) = k \<and> UpdateExisting p \<and>
      (case Timestamp p of
         None \<Rightarrow> False
       | Some t \<Rightarrow> (case parse t of None \<Rightarrow> False | Some \<tau> \<Rightarrow> lo \<le> \<tau> \<and> \<tau> < lo + 30 * Minute)))"

text \<open>
  The store that the insert path of \<open>SaveDevice\<close> is written to produce at T = 0:
  one row with count 1 and \<open>last_count_update\<close> T.
\<close>

definition storeCounted :: Store where
  "storeCounted =
     emptyStore\<lparr> devices :=
       [''AA:BB:CC:DD:EE:01'' \<mapsto>
          insertRow (saveParams ''AA:BB:CC:DD:EE:01'' ''ble'' ''2024-01-01 00:00:00'' True)
            ''2024-01-01 00:00:00'' 1],
       devices_seq := 1 \<rparr>"

section \<open>The type classifier (device type patterns, DetectTypedDevice)\<close>

text \<open>
  \<open>util.BytesToHex\<close>, \<open>strings.Fields\<close>, \<open>hex.DecodeString\<close> and
  \<open>hex.EncodeToString\<close>. A failed decoding is \<open>None\<close>.
\<close>

definition hexdigits :: string where
  "hexdigits = ''0123456789abcdef''"

definition hexByte :: "8 word \<Rightarrow> string" where
  "hexByte v = [hexdigits ! unat (drop_bit 4 v), hexdigits ! unat (v AND 0x0f)]"

fun BytesToHex :: "8 word list \<Rightarrow> string" where
  "BytesToHex [] = []"
| "BytesToHex [v] = hexByte v"
| "BytesToHex (v # vs) = hexByte v @ '' '' @ BytesToHex vs"

definition EncodeToString :: "8 word list \<Rightarrow> string" where
  "EncodeToString b = concat (map hexByte b)"

fun fieldsAcc :: "string \<Rightarrow> string \<Rightarrow> string list" where
  "fieldsAcc cur [] = (if cur = [] then [] else [cur])"
| "fieldsAcc cur (c # cs) =
     (if isSpace c then (if cur = [] then fieldsAcc [] cs else cur # fieldsAcc [] cs)
      else fieldsAcc (cur @ [c]) cs)"

definition Fields :: "string \<Rightarrow> string list" where
  "Fields s = fieldsAcc [] s"

definition fromHexChar :: "char \<Rightarrow> 8 word option" where
  "fromHexChar c =
     (let n = (of_char c :: nat) in
      if 48 \<le> n \<and> n \<le> 57 then Some (of_nat (n - 48))
      else if 97 \<le> n \<and> n \<le> 102 then Some (of_nat (n - 97 + 10))
      else if 65 \<le> n \<and> n \<le> 70 then Some (of_nat (n - 65 + 10))
      else None)"

fun DecodeString :: "string \<Rightarrow> 8 word list option" where
  "DecodeString [] = Some []"
| "DecodeString [c] = None"
| "DecodeString (a # b # cs) =
     (case (fromHexChar a, fromHexChar b, DecodeString cs) of
        (Some h, Some l, Some r) \<Rightarrow> Some ((push_bit 4 h OR l) # r)
      | _ \<Rightarrow> None)"

text \<open>\<open>parseHexBytes\<close>: the loop over the fields, then the function.\<close>

fun parseFields :: "string list \<Rightarrow> 8 word list option" where
  "parseFields [] = Some []"
| "parseFields (f0 # fs) =
     (let f = TrimSpace f0 in
      if f = [] then parseFields fs
      else
        case DecodeString (if length f = 1 then ''0'' @ f else f) of
          Some [b] \<Rightarrow> (case parseFields fs of Some out \<Rightarrow> Some (b # out) | None \<Rightarrow> None)
        | _ \<Rightarrow> None)"

definition parseHexBytes :: "string \<Rightarrow> 8 word list" where
  "parseHexBytes s0 =
     (let s = TrimSpace s0 in
      if s = [] then []
      else
        let fields = Fields s in
        if fields = [] then []
        else
          case (if length fields = 1 then DecodeString (hd fields) else None) of
            Some b \<Rightarrow> b
          | None \<Rightarrow> (case parseFields fields of Some out \<Rightarrow> out | None \<Rightarrow> []))"

record manufacturerEntry =
  CompanyID :: "16 word"
  DataHex :: string

fun findManufacturerBytes :: "manufacturerEntry list \<Rightarrow> 16 word \<Rightarrow> 8 word list" where
  "findManufacturerBytes [] companyID = []"
| "findManufacturerBytes (e # mfg) companyID =
     (if CompanyID e \<noteq> companyID then findManufacturerBytes mfg companyID
      else let b = parseHexBytes (DataHex e) in
           if length b > 0 then b else findManufacturerBytes mfg companyID)"

definition formatUUID :: "8 word list \<Rightarrow> string" where
  "formatUUID b =
     (if length b \<noteq> 16 then []
      else let hexs = EncodeToString b in
        ToUpper (take 8 hexs @ ''-'' @ take 4 (drop 8 hexs) @ ''-'' @ take 4 (drop 12 hexs)
                 @ ''-'' @ take 4 (drop 16 hexs) @ ''-'' @ take 12 (drop 20 hexs)))"

text \<open>\<open>binary.BigEndian.Uint16\<close> of a two-byte slice, as a Go \<open>int\<close>.\<close>

definition Uint16 :: "8 word list \<Rightarrow> int" where
  "Uint16 b = uint (push_bit 8 (ucast (b ! 0) :: 16 word) OR ucast (b ! 1))"

text \<open>
  The pattern \<open>^[A-Za-z0-9+/]+={0,2}$\<close>, and \<open>base64.StdEncoding.DecodeString\<close> on a
  text without line breaks: quanta of four characters, padding only in the last one.
\<close>

definition b64val :: "char \<Rightarrow> nat option" where
  "b64val c =
     (let n = (of_char c :: nat) in
      if 65 \<le> n \<and> n \<le> 90 then Some (n - 65)
      else if 97 \<le> n \<and> n \<le> 122 then Some (n - 97 + 26)
      else if 48 \<le> n \<and> n \<le> 57 then Some (n - 48 + 52)
      else if c = CHR ''+'' then Some 62
      else if c = CHR ''/'' then Some 63
      else None)"

definition base64Re :: "string \<Rightarrow> bool" where
  "base64Re n =
     (let body = takeWhile (\<lambda>c. b64val c \<noteq> None) n;
          pad = dropWhile (\<lambda>c. b64val c \<noteq> None) n
      in body \<noteq> [] \<and> (pad = [] \<or> pad = ''='' \<or> pad = ''==''))"

fun b64DecodeString :: "string \<Rightarrow> 8 word list option" where
  "b64DecodeString [] = Some []"
| "b64DecodeString [a, b, c, d] =
     (case (b64val a, b64val b) of
        (Some x, Some y) \<Rightarrow>
          (if c = CHR ''='' \<and> d = CHR ''='' then Some [of_nat ((x * 64 + y) div 16)]
           else case b64val c of
             None \<Rightarrow> None
           | Some z \<Rightarrow>
               (if d = CHR ''='' then
                  Some [of_nat (((x * 64 + y) * 64 + z) div 1024),
                        of_nat (((x * 64 + y) * 64 + z) div 4)]
                else case b64val d of
                  None \<Rightarrow> None
                | Some w \<Rightarrow>
                    Some [of_nat ((((x * 64 + y) * 64 + z) * 64 + w) div 65536),
                          of_nat ((((x * 64 + y) * 64 + z) * 64 + w) div 256),
                          of_nat ((((x * 64 + y) * 64 + z) * 64 + w))]))
      | _ \<Rightarrow> None)"
| "b64DecodeString (a # b # c # d # rest) =
     (case (b64val a, b64val b, b64val c, b64val d, b64DecodeString rest) of
        (Some x, Some y, Some z, Some w, Some r) \<Rightarrow>
          Some (of_nat ((((x * 64 + y) * 64 + z) * 64 + w) div 65536) #
                of_nat ((((x * 64 + y) * 64 + z) * 64 + w) div 256) #
                of_nat ((((x * 64 + y) * 64 + z) * 64 + w)) # r)
      | _ \<Rightarrow> None)"
| "b64DecodeString _ = None"

text \<open>The patterns, as \<open>LoadDeviceTypePatterns\<close> leaves them.\<close>

record IBeaconPattern =
  AppleCompanyID :: int
  UUID :: string
  Major :: int
  Minor :: int

record Manufacturer5BPattern =
  mf_CompanyID :: int
  mf_Length :: int

record DeviceTypePattern =
  pt_Name :: string
  RequireServiceUUID :: string
  IBeacon :: IBeaconPattern
  Manufacturer5B :: Manufacturer5BPattern
  NameBase645B :: bool

text \<open>
  \<open>DetectTypedDevice\<close>: \<open>patternMatches\<close> is the body of the loop over the patterns
  (true where the body returns the name), \<open>detectLoop\<close> the loop.
\<close>

definition svcSet :: "string list \<Rightarrow> string list" where
  "svcSet serviceUUIDsRaw = filter (\<lambda>u. u \<noteq> []) (map (\<lambda>u. ToUpper (TrimSpace u)) serviceUUIDsRaw)"

definition iBeaconMatches :: "DeviceTypePattern \<Rightarrow> manufacturerEntry list \<Rightarrow> bool" where
  "iBeaconMatches p mfg =
     (UUID (IBeacon p) \<noteq> [] \<and> AppleCompanyID (IBeacon p) > 0 \<and>
      (let payload = findManufacturerBytes mfg (word_of_int (AppleCompanyID (IBeacon p))) in
       length payload \<ge> 23 \<and> payload ! 0 = 0x02 \<and> payload ! 1 = 0x15 \<and>
       (let uuid = ToUpper (formatUUID (take 16 (drop 2 payload)));
            major = Uint16 (take 2 (drop 18 payload));
            minor = Uint16 (take 2 (drop 20 payload))
        in uuid = ToUpper (UUID (IBeacon p)) \<and> major = Major (IBeacon p)
           \<and> minor = Minor (IBeacon p))))"

definition manufacturer5BMatches :: "DeviceTypePattern \<Rightarrow> manufacturerEntry list \<Rightarrow> bool" where
  "manufacturer5BMatches p mfg =
     (mf_CompanyID (Manufacturer5B p) > 0 \<and> mf_Length (Manufacturer5B p) > 0 \<and>
      int (length (findManufacturerBytes mfg (word_of_int (mf_CompanyID (Manufacturer5B p)))))
        = mf_Length (Manufacturer5B p))"

definition nameBase645BMatches :: "DeviceTypePattern \<Rightarrow> string \<Rightarrow> bool" where
  "nameBase645BMatches p name =
     (NameBase645B p \<and>
      (let n = TrimSpace name in
       n \<noteq> [] \<and> length n \<le> 64 \<and> base64Re n \<and>
       (case b64DecodeString n of None \<Rightarrow> False | Some raw \<Rightarrow> length raw = 5)))"

definition patternMatches ::
  "DeviceTypePattern \<Rightarrow> string list \<Rightarrow> manufacturerEntry list \<Rightarrow> string \<Rightarrow> bool" where
  "patternMatches p svcs mfg name =
     (pt_Name p \<noteq> [] \<and>
      (RequireServiceUUID p = [] \<or> ToUpper (RequireServiceUUID p) \<in> set svcs) \<and>
      (iBeaconMatches p mfg \<or> manufacturer5BMatches p mfg \<or> nameBase645BMatches p name))"

fun detectLoop ::
  "DeviceTypePattern list \<Rightarrow> string list \<Rightarrow> manufacturerEntry list \<Rightarrow> string \<Rightarrow> string" where
  "detectLoop [] svcs mfg name = []"
| "detectLoop (p # ps) svcs mfg name =
     (if patternMatches p svcs mfg name then pt_Name p else detectLoop ps svcs mfg name)"

definition DetectTypedDevice ::
  "DeviceTypePattern list \<Rightarrow> string list \<Rightarrow> manufacturerEntry list \<Rightarrow> string \<Rightarrow> string" where
  "DetectTypedDevice patterns serviceUUIDsRaw mfg name =
     (if patterns = [] then []
      else detectLoop patterns (svcSet serviceUUIDsRaw) mfg name)"

text \<open>The pattern and the payload of the iBeacon scenario.\<close>

definition cokeon :: DeviceTypePattern where
  "cokeon =
     \<lparr> pt_Name = ''cokeon'', RequireServiceUUID = [],
       IBeacon = \<lparr> AppleCompanyID = 76, UUID = ''8AEFB031-6C32-486F-825B-E26FA193487D'',
                   Major = 42, Minor = 7 \<rparr>,
       Manufacturer5B = \<lparr> mf_CompanyID = 0, mf_Length = 0 \<rparr>,
       NameBase645B = False \<rparr>"

definition cokeonPayload :: "8 word list" where
  "cokeonPayload =
     [0x02, 0x15, 0x8A, 0xEF, 0xB0, 0x31, 0x6C, 0x32, 0x48, 0x6F, 0x82, 0x5B, 0xE2, 0x6F, 0xA1,
      0x93, 0x48, 0x7D, 0x00, 0x2A, 0x00, 0x07, 0xC5]"

definition cokeonEntry :: manufacturerEntry where
  "cokeonEntry = \<lparr> CompanyID = 76, DataHex = BytesToHex cokeonPayload \<rparr>"

text \<open>A second pattern, which asks for five bytes of company 76, and a second entry.\<close>

definition fiveBytes :: DeviceTypePattern where
  "fiveBytes =
     \<lparr> pt_Name = ''fivebytes'', RequireServiceUUID = [],
       IBeacon = \<lparr> AppleCompanyID = 0, UUID = [], Major = 0, Minor = 0 \<rparr>,
       Manufacturer5B = \<lparr> mf_CompanyID = 76, mf_Length = 5 \<rparr>,
       NameBase645B = False \<rparr>"

definition microsoftEntry :: manufacturerEntry where
  "microsoftEntry = \<lparr> CompanyID = 6, DataHex = ''01 09 20 02'' \<rparr>"

section \<open>The GPS state (internal/gps/state.go)\<close>

text \<open>
  A coordinate is a finite \<open>float64\<close> and is modelled by the rational number it
  denotes. \<open>formatF\<close> is the verb \<open>%f\<close> of \<open>fmt.Sprintf\<close>: the sign, the integer
  part and six decimals, the value rounded to the nearest multiple of one millionth
  and to the even one at a tie.
\<close>

definition digitChar :: "int \<Rightarrow> char" where
  "digitChar d = char_of (48 + d)"

function decimal :: "int \<Rightarrow> string" where
  "decimal n = (if n < 10 then [digitChar n] else decimal (n div 10) @ [digitChar (n mod 10)])"
  by pat_completeness auto
termination
  by (relation "measure nat") auto

declare decimal.simps [simp del]

definition pad6 :: "int \<Rightarrow> string" where
  "pad6 m = map (\<lambda>k. digitChar (m div k mod 10)) [100000, 10000, 1000, 100, 10, 1]"

definition roundHalfEven :: "rat \<Rightarrow> int" where
  "roundHalfEven q =
     (let f = \<lfloor>q\<rfloor>; d = q - of_int f in
      if d < 1 / 2 then f else if d > 1 / 2 then f + 1 else if even f then f else f + 1)"

definition formatF :: "rat \<Rightarrow> string" where
  "formatF x =
     (let n = roundHalfEven (\<bar>x\<bar> * 1000000) in
      (if x < 0 then ''-'' else []) @ decimal (n div 1000000) @ ''.'' @ pad6 (n mod 1000000))"

record State =
  useGPS :: bool
  latestLat :: rat
  latestLon :: rat
  lastFix :: "int option"
  received :: bool
  timeout :: int
  activeKind :: string

definition NewState :: "bool \<Rightarrow> int \<Rightarrow> State" where
  "NewState use tmo =
     \<lparr> useGPS = use, latestLat = 0, latestLon = 0, lastFix = None,
       received = (\<not> use), timeout = tmo, activeKind = [] \<rparr>"

definition updateFix :: "int \<Rightarrow> rat \<Rightarrow> rat \<Rightarrow> State \<Rightarrow> State" where
  "updateFix now lat lon st =
     st\<lparr> latestLat := lat, latestLon := lon, lastFix := Some now, received := True \<rparr>"

definition Source :: "State \<Rightarrow> string" where
  "Source st = activeKind st"

definition FixSnapshot :: "int \<Rightarrow> State \<Rightarrow> rat \<times> rat \<times> bool \<times> bool" where
  "FixSnapshot now st =
     (if \<not> useGPS st then (0, 0, False, False)
      else case lastFix st of
             None \<Rightarrow> (0, 0, False, False)
           | Some t \<Rightarrow> (latestLat st, latestLon st, True, now - t > timeout st))"

definition IsFresh :: "int \<Rightarrow> State \<Rightarrow> bool" where
  "IsFresh now st =
     (if \<not> useGPS st then False
      else case lastFix st of None \<Rightarrow> False | Some t \<Rightarrow> now - t \<le> timeout st)"

definition GPSStringIfFresh :: "int \<Rightarrow> State \<Rightarrow> string option" where
  "GPSStringIfFresh now st =
     (if \<not> useGPS st then None
      else case lastFix st of
             None \<Rightarrow> None
           | Some t \<Rightarrow>
               if now - t > timeout st then None
               else Some (formatF (latestLat st) @ '', '' @ formatF (latestLon st)))"

definition GPSStringForRecord :: "int \<Rightarrow> State \<Rightarrow> string option" where
  "GPSStringForRecord now st =
     (if \<not> useGPS st then None
      else case lastFix st of
             None \<Rightarrow> None
           | Some t \<Rightarrow>
               if now - t \<le> timeout st
               then Some (formatF (latestLat st) @ '', '' @ formatF (latestLon st))
               else Some (''('' @ formatF (latestLat st) @ '', '' @ formatF (latestLon st) @ '')''))"

section \<open>Names and address types\<close>

text \<open>
  \<open>util.IsMACAddress\<close> matches the trimmed text against
  \<open>^([0-9A-Fa-f]{2}[:-]){5}([0-9A-Fa-f]{2})$\<close>; \<open>macGroups n\<close> is \<open>n\<close> groups of two
  hexadecimal digits and a separator, then two last digits and the end of the text.
\<close>

definition isHexDigit :: "char \<Rightarrow> bool" where
  "isHexDigit c = (fromHexChar c \<noteq> None)"

fun macGroups :: "nat \<Rightarrow> string \<Rightarrow> bool" where
  "macGroups 0 s = (case s of [a, b] \<Rightarrow> isHexDigit a \<and> isHexDigit b | _ \<Rightarrow> False)"
| "macGroups (Suc n) s =
     (case s of
        a # b # c # rest \<Rightarrow>
          isHexDigit a \<and> isHexDigit b \<and> (c = CHR '':'' \<or> c = CHR ''-'') \<and> macGroups n rest
      | _ \<Rightarrow> False)"

definition IsMACAddress :: "string \<Rightarrow> bool" where
  "IsMACAddress s = macGroups 5 (TrimSpace s)"

definition SafeName :: "string \<Rightarrow> string" where
  "SafeName localName =
     (let name = TrimSpace localName in
      if name = [] then ''Unknown''
      else if IsMACAddress name then ''Unknown''
      else name)"

text \<open>
  \<open>ClassifyAddress\<close> (internal/bluetooth/mac_type.go), used by the scanner that takes
  its results from the Bluetooth library: \<open>isRandom\<close> is \<open>addr.IsRandom()\<close> and
  \<open>bin\<close> the result of \<open>addr.MAC.MarshalBinary()\<close>, \<open>None\<close> for its error.
\<close>

definition ClassifyAddress :: "bool \<Rightarrow> 8 word list option \<Rightarrow> string \<times> string" where
  "ClassifyAddress isRandom bin =
     (if \<not> isRandom then (''public_or_unknown'', [])
      else case bin of
             None \<Rightarrow> (''random'', [])
           | Some b \<Rightarrow>
               if length b < 1 then (''random'', [])
               else
                 let msb2 = drop_bit 6 (b ! 0) AND 0x03 in
                 if msb2 = 0 then (''random'', ''non_resolvable_private'')
                 else if msb2 = 1 then (''random'', ''resolvable_private'')
                 else if msb2 = 2 then (''random'', ''reserved'')
                 else if msb2 = 3 then (''random'', ''static_random'')
                 else (''random'', []))"

section \<open>The discovery loop (runBlueZDiscoveryLoop)\<close>

record bluezConfig =
  SnapshotInterval :: int
  DeviceUpdateMinPeriod :: int
  AdvInsertMinPeriod :: int
  ClassicHistMinPeriod :: int
  ConnectCooldown :: int
  ConnectRSSIMin :: int
  ConnectQueueSize :: nat
  DiscoverFilterRSSI :: int
  DuplicateData :: bool

definition defaultBlueZConfig :: bluezConfig where
  "defaultBlueZConfig =
     \<lparr> SnapshotInterval = 3 * Second,
       DeviceUpdateMinPeriod = 10 * Second,
       AdvInsertMinPeriod = 30 * Second,
       ClassicHistMinPeriod = 30 * Second,
       ConnectCooldown = 30 * Minute,
       ConnectRSSIMin = -75,
       ConnectQueueSize = 8192,
       DiscoverFilterRSSI = -90,
       DuplicateData = False \<rparr>"

text \<open>
  A device of the snapshot. The JSON texts that the loop builds from it
  (\<open>jsonOrEmptyArray\<close>, \<open>buildAdvertisementJSONBlueZ\<close>) and the vendor that the
  resolver finds are carried along as they come out: \<open>json.Marshal\<close> and the vendor
  table are outside the loop.
\<close>

record bluezDevice =
  bd_Name :: string
  bd_Type :: "string option"
  bd_AddressType :: "string option"
  bd_RSSI :: "int option"
  bd_TxPower :: "string option"
  bd_UUIDs :: "string list"
  bd_ManufacturerEntries :: "manufacturerEntry list"
  bd_Class :: "32 word option"
  bd_Icon :: "string option"
  bd_Paired :: "bool option"
  bd_Trusted :: "bool option"
  bd_Connected :: "bool option"
  bd_Blocked :: "bool option"
  bd_LegacyPairing :: "bool option"
  bd_Modalias :: "string option"
  bd_UUIDsJSON :: "string option"
  bd_PropsJSON :: "string option"
  bd_vendor :: "string option"
  bd_mfgJSON :: "string option"
  bd_svcUUIDJSON :: "string option"
  bd_svcDataJSON :: "string option"
  bd_advJSON :: "string option"

definition isClassicLikely :: "bluezDevice \<Rightarrow> bool" where
  "isClassicLikely d =
     (let t = (case bd_Type d of None \<Rightarrow> [] | Some ty \<Rightarrow> ToLower (TrimSpace ty)) in
      if bd_Type d \<noteq> None \<and> (t = ''bredr'' \<or> t = ''dual'') then True
      else if bd_Type d \<noteq> None \<and> t = ''le'' then False
      else if (case bd_Class d of None \<Rightarrow> False | Some c \<Rightarrow> c \<noteq> 0) then True
      else if bd_LegacyPairing d = Some True then True
      else False)"

definition bluezTypeToDeviceType :: "bluezDevice \<Rightarrow> string" where
  "bluezTypeToDeviceType bd =
     (let t = (case bd_Type bd of None \<Rightarrow> [] | Some ty \<Rightarrow> ToLower (TrimSpace ty)) in
      if bd_Type bd \<noteq> None \<and> t = ''le'' then ''ble''
      else if bd_Type bd \<noteq> None \<and> t = ''bredr'' then ''classic''
      else if bd_Type bd \<noteq> None \<and> t = ''dual'' then ''dual''
      else if isClassicLikely bd then ''classic''
      else ''ble'')"

text \<open>The address type and subtype that the loop stores (lines 602-611).\<close>

definition macTypeSub :: "bluezDevice \<Rightarrow> string \<times> string" where
  "macTypeSub bd =
     (case bd_AddressType bd of
        None \<Rightarrow> (''public_or_unknown'', [])
      | Some a \<Rightarrow>
          let addrType = ToLower (TrimSpace a) in
          (if addrType = ''random'' then ''random'' else ''public_or_unknown'', addrType))"

text \<open>\<open>rssiStr\<close>, with \<open>%d\<close> of an \<open>int\<close>.\<close>

definition itoa :: "int \<Rightarrow> string" where
  "itoa i = (if i < 0 then ''-'' @ decimal (- i) else decimal i)"

definition rssiStr :: "int option \<Rightarrow> string" where
  "rssiStr rssi = (case rssi of None \<Rightarrow> ''n/a'' | Some r \<Rightarrow> itoa r)"

text \<open>
  What one observation reads from outside the loop: the timestamp, the GPS state and
  the clock at its two readings, and the clock of the store at its two readings in
  \<open>RecordDeviceGPSHistoryIfChanged\<close>.
\<close>

record obsEnv =
  e_ts :: string
  e_gps :: State
  e_clkRecord :: int
  e_clkSnapshot :: int
  e_clkSince :: int
  e_clkStamp :: int

text \<open>
  The state of the loop: its ten maps, the connect queue (a channel of capacity
  \<open>ConnectQueueSize\<close>), the lines printed with their label, and the store.
\<close>

record loopState =
  known :: "string \<rightharpoonup> bool"
  inFlight :: "string \<rightharpoonup> bool"
  lastConnAttempt :: "string \<rightharpoonup> int"
  seenCount :: "string \<rightharpoonup> int"
  lastDeviceWrite :: "string \<rightharpoonup> int"
  lastAdvWrite :: "string \<rightharpoonup> int"
  lastClassicHist :: "string \<rightharpoonup> int"
  lastGPSWrite :: "string \<rightharpoonup> int"
  lastGPSVal :: "string \<rightharpoonup> string"
  lastMarked :: "string \<rightharpoonup> string"
  queue :: "string list"
  console :: "(string \<times> string) list"
  store :: Store

text \<open>Reading a Go map of \<open>bool\<close> or \<open>int\<close>: the zero value for a missing key.\<close>

definition getBool :: "(string \<rightharpoonup> bool) \<Rightarrow> string \<Rightarrow> bool" where
  "getBool m k = (case m k of None \<Rightarrow> False | Some b \<Rightarrow> b)"

definition getInt :: "(string \<rightharpoonup> int) \<Rightarrow> string \<Rightarrow> int" where
  "getInt m k = (case m k of None \<Rightarrow> 0 | Some n \<Rightarrow> n)"

definition Linef :: "string \<Rightarrow> string \<Rightarrow> loopState \<Rightarrow> loopState" where
  "Linef label msg s = s\<lparr> console := console s @ [(label, msg)] \<rparr>"

definition scanLine :: "string \<Rightarrow> string \<Rightarrow> int option \<Rightarrow> string" where
  "scanLine name adapterID rssi = name @ '' (Interface: '' @ adapterID @ '') RSSI: '' @ rssiStr rssi"

text \<open>
  The GPS write shared by both branches (lines 649-652 and 676-679), and the marker
  update shared by both (lines 657-664 and 713-720).
\<close>

definition gpsWrite :: "obsEnv \<Rightarrow> int \<Rightarrow> int \<Rightarrow> string \<Rightarrow> string \<Rightarrow> loopState \<Rightarrow> loopState" where
  "gpsWrite env sessionID now mac gpsText s =
     (let (gLat, gLon, gOK, gCached) = FixSnapshot (e_clkSnapshot env) (e_gps env);
          latPtr = (if gOK then Some gLat else None);
          lonPtr = (if gOK then Some gLon else None);
          src = TrimSpace (Source (e_gps env));
          gpsSource = (if src \<noteq> [] then Some src else None);
          st1 = UpdateDeviceGPS (store s) mac gpsText;
          st2 = snd (RecordDeviceGPSHistoryIfChanged (e_clkSince env) (e_clkStamp env) st1
                       (Some sessionID) mac (e_ts env) latPtr lonPtr gpsText gCached gpsSource)
      in s\<lparr> store := st2,
             lastGPSVal := (lastGPSVal s)(mac \<mapsto> gpsText),
             lastGPSWrite := (lastGPSWrite s)(mac \<mapsto> now) \<rparr>)"

definition markerUpdate :: "string \<Rightarrow> string \<Rightarrow> string \<Rightarrow> loopState \<Rightarrow> loopState" where
  "markerUpdate name mac markedTypeStr s =
     (if TrimSpace markedTypeStr \<noteq> [] then
        let mt = TrimSpace markedTypeStr;
            s1 = (if lastMarked s mac \<noteq> Some mt
                  then Linef ''[MARK]'' (name @ '' ('' @ mac @ '') type='' @ mt)
                         (s\<lparr> lastMarked := (lastMarked s)(mac \<mapsto> mt) \<rparr>)
                  else s)
        in s1\<lparr> store := UpdateDeviceMarkedType (store s1) mac mt \<rparr>
      else s)"

text \<open>The branch taken inside the throttle window (lines 638-664).\<close>

definition throttledWrite ::
  "obsEnv \<Rightarrow> int \<Rightarrow> int \<Rightarrow> string \<Rightarrow> string \<Rightarrow> string option \<Rightarrow> string \<Rightarrow> loopState \<Rightarrow> loopState" where
  "throttledWrite env sessionID now name mac gpsStr markedTypeStr s =
     (let s1 =
        (case gpsStr of
           None \<Rightarrow> s
         | Some g \<Rightarrow>
             let gpsText = TrimSpace g in
             if gpsText \<noteq> [] then
               let need =
                 (if lastGPSVal s mac \<noteq> Some gpsText then True
                  else (case lastGPSWrite s mac of
                          None \<Rightarrow> True
                        | Some t0 \<Rightarrow> now - t0 \<ge> 10 * Second))
               in if need then gpsWrite env sessionID now mac gpsText s else s
             else s)
      in markerUpdate name mac markedTypeStr s1)"

text \<open>The parameters of the full device write (lines 690-710).\<close>

definition deviceParams ::
  "obsEnv \<Rightarrow> string \<Rightarrow> int \<Rightarrow> string option \<Rightarrow> string \<Rightarrow> string \<Rightarrow> bluezDevice \<Rightarrow> string option
     \<Rightarrow> SaveParams" where
  "deviceParams env adapterID sessionID tag name mac bd gpsStr =
     \<lparr> SessionID = Some sessionID,
       DeviceType = Some (bluezTypeToDeviceType bd),
       Name = Some name,
       MAC = mac,
       MACType = Some (fst (macTypeSub bd)),
       MACSubType = Some (snd (macTypeSub bd)),
       RSSI = bd_RSSI bd,
       Timestamp = Some (e_ts env),
       Adapter = Some adapterID,
       ManufacturerData = bd_mfgJSON bd,
       ManufacturerName = bd_vendor bd,
       ServiceUUIDs = bd_svcUUIDJSON bd,
       ServiceData = bd_svcDataJSON bd,
       TxPower = bd_TxPower bd,
       PlatformData = bd_PropsJSON bd,
       AdvertisementJSON = bd_advJSON bd,
       LastAdvID = None,
       GPS = gpsStr,
       ServiceList = None,
       UpdateExisting = True,
       Tag = tag,
       MarkedType = None \<rparr>"

text \<open>The full device write (lines 666-720).\<close>

definition fullWrite ::
  "(string \<Rightarrow> int option) \<Rightarrow> obsEnv \<Rightarrow> string \<Rightarrow> int \<Rightarrow> string option \<Rightarrow> int \<Rightarrow> string \<Rightarrow> string
     \<Rightarrow> bluezDevice \<Rightarrow> string option \<Rightarrow> string \<Rightarrow> loopState \<Rightarrow> loopState" where
  "fullWrite parse env adapterID sessionID tag now name mac bd gpsStr markedTypeStr s =
     (let s1 = s\<lparr> lastDeviceWrite := (lastDeviceWrite s)(mac \<mapsto> now) \<rparr>;
          s2 = (if getInt (seenCount s1) mac > 1
                then Linef ''[UPDATE]'' (scanLine name adapterID (bd_RSSI bd)) s1 else s1);
          s3 = (case gpsStr of
                  None \<Rightarrow> s2
                | Some g \<Rightarrow>
                    if TrimSpace g \<noteq> [] then gpsWrite env sessionID now mac (TrimSpace g) s2
                    else s2);
          s4 = s3\<lparr> store := snd (SaveDevice parse (e_ts env) (store s3)
                                     (deviceParams env adapterID sessionID tag name mac bd gpsStr)) \<rparr>
      in markerUpdate name mac markedTypeStr s4)"

text \<open>Advertisement history (lines 723-741) and the Classic tables (lines 743-775).\<close>

definition advWrite :: "bluezConfig \<Rightarrow> obsEnv \<Rightarrow> int \<Rightarrow> int \<Rightarrow> string \<Rightarrow> bluezDevice \<Rightarrow> loopState \<Rightarrow> loopState" where
  "advWrite cfg env sessionID now mac bd s =
     (if (case lastAdvWrite s mac of None \<Rightarrow> True | Some lastT \<Rightarrow> now - lastT \<ge> AdvInsertMinPeriod cfg)
      then
        let s1 = s\<lparr> lastAdvWrite := (lastAdvWrite s)(mac \<mapsto> now) \<rparr>;
            rssiVal = (case bd_RSSI bd of None \<Rightarrow> 0 | Some r \<Rightarrow> r);
            (id, st1) = InsertAdvertisement (store s1)
                          \<lparr> ap_SessionID = Some sessionID, ap_MAC = mac, ap_Timestamp = e_ts env,
                            ap_RSSI = Some rssiVal, ap_Raw = None, ap_JSON = bd_advJSON bd \<rparr>
        in s1\<lparr> store := (if id > 0 then UpdateDeviceLastAdvID st1 mac id else st1) \<rparr>
      else s)"

definition optBool :: "bool option \<Rightarrow> int option" where
  "optBool p = map_option (\<lambda>b. if b then 1 else 0) p"

definition classicWrite :: "bluezConfig \<Rightarrow> obsEnv \<Rightarrow> int \<Rightarrow> int \<Rightarrow> string \<Rightarrow> bluezDevice \<Rightarrow> loopState \<Rightarrow> loopState" where
  "classicWrite cfg env sessionID now mac bd s =
     (if isClassicLikely bd then
        let s1 =
          (if (case lastClassicHist s mac of None \<Rightarrow> True
                                           | Some lastT \<Rightarrow> now - lastT \<ge> ClassicHistMinPeriod cfg)
           then
             s\<lparr> lastClassicHist := (lastClassicHist s)(mac \<mapsto> now),
                store := InsertClassicDiscovery (store s)
                           \<lparr> cd_session_id = Some sessionID, cd_mac = mac, cd_timestamp = e_ts env,
                             cd_rssi = Some (case bd_RSSI bd of None \<Rightarrow> 0 | Some r \<Rightarrow> r),
                             cd_class = map_option uint (bd_Class bd),
                             cd_props_json = bd_PropsJSON bd \<rparr> \<rparr>
           else s)
        in s1\<lparr> store := UpsertClassicInfo (store s1) mac
                            \<lparr> cl_class = map_option uint (bd_Class bd), cl_icon = bd_Icon bd,
                              cl_paired = optBool (bd_Paired bd), cl_trusted = optBool (bd_Trusted bd),
                              cl_connected = optBool (bd_Connected bd),
                              cl_blocked = optBool (bd_Blocked bd),
                              cl_legacy_pairing = optBool (bd_LegacyPairing bd),
                              cl_modalias = bd_Modalias bd, cl_uuids = bd_UUIDsJSON bd,
                              cl_last_seen = Some (e_ts env), cl_props_json = bd_PropsJSON bd \<rparr> \<rparr>
      else s)"

text \<open>
  Connection scheduling (lines 777-809). The send on the channel does not block: it
  appends when the queue has room and otherwise takes the \<open>default\<close> case.
\<close>

definition scheduleConnect :: "bluezConfig \<Rightarrow> int \<Rightarrow> string \<Rightarrow> bluezDevice \<Rightarrow> loopState \<Rightarrow> loopState" where
  "scheduleConnect cfg now mac bd s =
     (if bluezTypeToDeviceType bd = ''classic'' then s
      else if (case bd_RSSI bd of None \<Rightarrow> True | Some r \<Rightarrow> r < ConnectRSSIMin cfg) then s
      else if getInt (seenCount s) mac < 2 then s
      else if HasGattServices (store s) mac then s
      else if getBool (inFlight s) mac then s
      else if (case lastConnAttempt s mac of None \<Rightarrow> False
                                            | Some lastT \<Rightarrow> now - lastT < ConnectCooldown cfg) then s
      else
        let s1 = s\<lparr> lastConnAttempt := (lastConnAttempt s)(mac \<mapsto> now),
                     inFlight := (inFlight s)(mac \<mapsto> True) \<rparr>
        in if length (queue s1) < ConnectQueueSize cfg
           then s1\<lparr> queue := queue s1 @ [mac] \<rparr>
           else s1\<lparr> inFlight := (inFlight s1)(mac := None) \<rparr>)"

text \<open>
  One observation of the snapshot (the body of the loop over \<open>snap\<close>, lines 561-810),
  with \<open>now\<close> the clock read once for the tick: the sighting (lines 573-581), the
  device write in one of its two branches (lines 636-721), the advertisement and
  Classic writes, and the connection scheduling.
\<close>

definition sighting :: "string \<Rightarrow> string \<Rightarrow> bluezDevice \<Rightarrow> loopState \<Rightarrow> loopState" where
  "sighting adapterID mac bd s =
     (let s1 = s\<lparr> seenCount := (seenCount s)(mac \<mapsto> getInt (seenCount s) mac + 1) \<rparr>;
          name = SafeName (bd_Name bd)
      in if \<not> getBool (known s1) mac
         then Linef ''[NEW]'' (scanLine name adapterID (bd_RSSI bd))
                (s1\<lparr> known := (known s1)(mac \<mapsto> True) \<rparr>)
         else s1)"

definition throttled :: "bluezConfig \<Rightarrow> int \<Rightarrow> string \<Rightarrow> loopState \<Rightarrow> bool" where
  "throttled cfg now mac s =
     (case lastDeviceWrite s mac of
        None \<Rightarrow> False
      | Some lastT \<Rightarrow> now - lastT < DeviceUpdateMinPeriod cfg)"

definition deviceWrite ::
  "(string \<Rightarrow> int option) \<Rightarrow> DeviceTypePattern list \<Rightarrow> bluezConfig \<Rightarrow> obsEnv \<Rightarrow> string \<Rightarrow> int
     \<Rightarrow> string option \<Rightarrow> int \<Rightarrow> string \<Rightarrow> bluezDevice \<Rightarrow> loopState \<Rightarrow> loopState" where
  "deviceWrite parse patterns cfg env adapterID sessionID tag now mac bd s =
     (let name = SafeName (bd_Name bd);
          gpsStr = GPSStringForRecord (e_clkRecord env) (e_gps env);
          markedTypeStr =
            DetectTypedDevice patterns (bd_UUIDs bd) (bd_ManufacturerEntries bd) (bd_Name bd)
      in if throttled cfg now mac s
         then throttledWrite env sessionID now name mac gpsStr markedTypeStr s
         else fullWrite parse env adapterID sessionID tag now name mac bd gpsStr markedTypeStr s)"

definition observeWrites ::
  "(string \<Rightarrow> int option) \<Rightarrow> DeviceTypePattern list \<Rightarrow> bluezConfig \<Rightarrow> obsEnv \<Rightarrow> string \<Rightarrow> int
     \<Rightarrow> string option \<Rightarrow> int \<Rightarrow> string \<Rightarrow> bluezDevice \<Rightarrow> loopState \<Rightarrow> loopState" where
  "observeWrites parse patterns cfg env adapterID sessionID tag now mac bd s =
     classicWrite cfg env sessionID now mac bd
       (advWrite cfg env sessionID now mac bd
          (deviceWrite parse patterns cfg env adapterID sessionID tag now mac bd
             (sighting adapterID mac bd s)))"

definition observe ::
  "(string \<Rightarrow> int option) \<Rightarrow> DeviceTypePattern list \<Rightarrow> string \<Rightarrow> int \<Rightarrow> string option \<Rightarrow> int
     \<Rightarrow> loopState \<Rightarrow> obsEnv \<times> string \<times> bluezDevice \<Rightarrow> loopState" where
  "observe parse patterns adapterID sessionID tag now s obs =
     (let cfg = defaultBlueZConfig;
          (env, mac0, bd) = obs;
          mac = ToUpper (TrimSpace mac0)
      in if mac = [] then s
         else scheduleConnect cfg now mac bd
                (observeWrites parse patterns cfg env adapterID sessionID tag now mac bd s))"

text \<open>
  A tick: the completed connect jobs are drained from the done channel, then the
  observations of the snapshot are processed in the order of the iteration.
\<close>

definition drain :: "string list \<Rightarrow> loopState \<Rightarrow> loopState" where
  "drain done s = s\<lparr> inFlight := (\<lambda>k. if k \<in> set done then None else inFlight s k) \<rparr>"

definition tick ::
  "(string \<Rightarrow> int option) \<Rightarrow> DeviceTypePattern list \<Rightarrow> string \<Rightarrow> int \<Rightarrow> string option \<Rightarrow> int
     \<Rightarrow> string list \<Rightarrow> (obsEnv \<times> string \<times> bluezDevice) list \<Rightarrow> loopState \<Rightarrow> loopState" where
  "tick parse patterns adapterID sessionID tag now done snap s =
     foldl (observe parse patterns adapterID sessionID tag now) (drain done s) snap"

definition initialState :: "Store \<Rightarrow> loopState" where
  "initialState st =
     \<lparr> known = Map.empty, inFlight = Map.empty, lastConnAttempt = Map.empty,
       seenCount = Map.empty, lastDeviceWrite = Map.empty, lastAdvWrite = Map.empty,
       lastClassicHist = Map.empty, lastGPSWrite = Map.empty, lastGPSVal = Map.empty,
       lastMarked = Map.empty, queue = [], console = [], store = st \<rparr>"

text \<open>
  The connect workers receive from the front of the queue; \<open>workersTake n\<close> is the
  state after they have received \<open>n\<close> addresses.
\<close>

definition workersTake :: "nat \<Rightarrow> loopState \<Rightarrow> loopState" where
  "workersTake n s = s\<lparr> queue := drop n (queue s) \<rparr>"

text \<open>A device seen as LE with a given RSSI, and the surroundings of an observation at a time.\<close>

definition leDevice :: "string \<Rightarrow> int \<Rightarrow> bluezDevice" where
  "leDevice name rssi =
     \<lparr> bd_Name = name, bd_Type = Some ''le'', bd_AddressType = Some ''random'',
       bd_RSSI = Some rssi, bd_TxPower = None, bd_UUIDs = [], bd_ManufacturerEntries = [],
       bd_Class = None, bd_Icon = None, bd_Paired = None, bd_Trusted = None,
       bd_Connected = None, bd_Blocked = None, bd_LegacyPairing = None, bd_Modalias = None,
       bd_UUIDsJSON = None, bd_PropsJSON = None, bd_vendor = None, bd_mfgJSON = Some ''[]'',
       bd_svcUUIDJSON = Some ''[]'', bd_svcDataJSON = Some ''[]'', bd_advJSON = None \<rparr>"

definition envAt :: "int \<Rightarrow> string \<Rightarrow> obsEnv" where
  "envAt t ts =
     \<lparr> e_ts = ts, e_gps = updateFix 0 37 (-122) (NewState True (300 * Second)),
       e_clkRecord = t, e_clkSnapshot = t, e_clkSince = t, e_clkStamp = t \<rparr>"

text \<open>
  A device row with the three columns cleared that the cheap updates write:
  two rows agree on every other column when their \<open>otherColumns\<close> are equal.
\<close>

definition otherColumns :: "device_row \<Rightarrow> device_row" where
  "otherColumns r = r\<lparr> dev_gps := None, dev_type := None, dev_last_adv_id := None \<rparr>"

text \<open>The key under which the store files an observation of the loop.\<close>

definition obsKey :: "string \<Rightarrow> string" where
  "obsKey mac0 = normalizeMAC (ToUpper (TrimSpace mac0))"

text \<open>A name that is blank or has the form of a MAC address.\<close>

definition unnamed :: "string \<Rightarrow> bool" where
  "unnamed n = (TrimSpace n = [] \<or> IsMACAddress n)"

definition storedUnknown :: "Store \<Rightarrow> string \<Rightarrow> bool" where
  "storedUnknown st k = (case devices st k of None \<Rightarrow> True | Some r \<Rightarrow> dev_name r = Some ''Unknown'')"

text \<open>
  Two relations between the store before and after an operation: every row of the
  later store has the name \<open>n\<close> or the name it had; and no row but that of \<open>key\<close>
  differs.
\<close>

definition namesFrom :: "string \<Rightarrow> Store \<Rightarrow> Store \<Rightarrow> bool" where
  "namesFrom n st st' =
     (\<forall>k r'. devices st' k = Some r' \<longrightarrow>
        dev_name r' = Some n \<or> (\<exists>r. devices st k = Some r \<and> dev_name r' = dev_name r))"

definition touchesOnly :: "string \<Rightarrow> Store \<Rightarrow> Store \<Rightarrow> bool" where
  "touchesOnly key st st' = (\<forall>k. k \<noteq> key \<longrightarrow> devices st' k = devices st k)"

text \<open>Printed lines of which those labelled \<open>[NEW]\<close> or \<open>[UPDATE]\<close> have the text \<open>msg\<close>.\<close>

definition scanLinesAre :: "string \<Rightarrow> (string \<times> string) list \<Rightarrow> bool" where
  "scanLinesAre msg new =
     (\<forall>l \<in> set new. fst l = ''[NEW]'' \<or> fst l = ''[UPDATE]'' \<longrightarrow> snd l = msg)"

definition printsOnly :: "string \<Rightarrow> loopState \<Rightarrow> loopState \<Rightarrow> bool" where
  "printsOnly msg s s' = (\<exists>new. console s' = console s @ new \<and> scanLinesAre msg new)"

text \<open>
  The conditions of the cheap updates, in the words of the specification: the GPS text
  is there and differs from the last one written for the address, or the last GPS
  write is missing or at least 10 seconds old; and the advertisement row is due when
  the last one for the address is missing or at least 30 seconds old.
\<close>

definition gpsRefreshDue :: "int \<Rightarrow> string \<Rightarrow> string option \<Rightarrow> loopState \<Rightarrow> bool" where
  "gpsRefreshDue now mac gpsStr s =
     (case gpsStr of
        None \<Rightarrow> False
      | Some g \<Rightarrow>
          TrimSpace g \<noteq> [] \<and>
          (lastGPSVal s mac \<noteq> Some (TrimSpace g) \<or>
           (case lastGPSWrite s mac of None \<Rightarrow> True | Some t0 \<Rightarrow> now - t0 \<ge> 10 * Second)))"

definition advDue :: "int \<Rightarrow> string \<Rightarrow> loopState \<Rightarrow> bool" where
  "advDue now mac s =
     (case lastAdvWrite s mac of None \<Rightarrow> True | Some t \<Rightarrow> now - t \<ge> 30 * Second)"

text \<open>
  A device that advertises its own address as its name, observed from the start of
  the loop on an empty store; and one device observed at 0 s, 24 s and 30 s.
\<close>

definition addrY :: string where
  "addrY = ''C0:11:22:33:44:55''"

definition obsAt :: "int \<Rightarrow> string \<Rightarrow> int \<Rightarrow> obsEnv \<times> string \<times> bluezDevice" where
  "obsAt t ts rssi = (envAt t ts, addrY, leDevice addrY rssi)"

definition stepAt :: "int \<Rightarrow> string \<Rightarrow> int \<Rightarrow> loopState \<Rightarrow> loopState" where
  "stepAt t ts rssi s = observe parseTimestamp [] ''hci0'' 1 None t s (obsAt t ts rssi)"

definition run0 :: loopState where
  "run0 = stepAt 0 ''2024-01-01 00:00:00'' (-80) (initialState emptyStore)"

definition run24 :: loopState where
  "run24 = stepAt (24 * Second) ''2024-01-01 00:00:24'' (-80) run0"

definition run30 :: loopState where
  "run30 = stepAt (30 * Second) ''2024-01-01 00:00:30'' (-80) run24"

text \<open>
  The connect scenario: sightings at 0 s and 3 s with RSSI -80, at 6 s with RSSI -60,
  at 9 s after a worker has taken the job, at 21 s after the job has been reported
  done, and at 30 min 6 s.
\<close>

definition gate0 :: loopState where
  "gate0 = stepAt 0 ''2024-01-01 00:00:00'' (-80) (initialState emptyStore)"

definition gate3 :: loopState where
  "gate3 = stepAt (3 * Second) ''2024-01-01 00:00:03'' (-80) gate0"

definition gate6 :: loopState where
  "gate6 = stepAt (6 * Second) ''2024-01-01 00:00:06'' (-60) gate3"

definition gate9 :: loopState where
  "gate9 = stepAt (9 * Second) ''2024-01-01 00:00:09'' (-60) (workersTake 1 gate6)"

definition gate21 :: loopState where
  "gate21 = stepAt (21 * Second) ''2024-01-01 00:00:21'' (-60) (drain [addrY] gate9)"

definition gate1806 :: loopState where
  "gate1806 = stepAt (1806 * Second) ''2024-01-01 00:30:06'' (-60) gate21"

text \<open>A state whose connect queue is full, for an address seen once before.\<close>

definition fullQueue :: loopState where
  "fullQueue =
     (initialState emptyStore)
       \<lparr> known := [addrY \<mapsto> True], seenCount := [addrY \<mapsto> 1],
         queue := replicate 8192 ''AA:BB:CC:DD:EE:01'' \<rparr>"

text \<open>The address types of the specification.\<close>

definition subtypes :: "string list" where
  "subtypes = [''public_or_unknown'', ''non_resolvable_private'', ''resolvable_private'',
               ''reserved'', ''static_random'']"

section \<open>Properties of the store\<close>

lemma SaveDevice_update:
  assumes "normalizeMAC (MAC p) \<noteq> []" and "UpdateExisting p"
    and "devices s (normalizeMAC (MAC p)) = Some r"
  shows "SaveDevice parse nowStr s p =
           (None, s\<lparr> devices := (devices s)(normalizeMAC (MAC p) \<mapsto>
              updateRow parse p (case Timestamp p of None \<Rightarrow> nowStr | Some t \<Rightarrow> t) r) \<rparr>)"
  using assms by (simp add: SaveDevice_def Let_def)

lemma EqualFold_nonempty: "EqualFold x ''dual'' \<Longrightarrow> x \<noteq> []"
  by (auto simp: EqualFold_def ToLower_def)

text \<open>
  C3. On a row that exists, \<open>SaveDevice\<close> with \<open>update_existing\<close> merges the incoming
  family by the dual-promotion rule: an empty stored family takes the (trimmed)
  incoming one, a stored \<open>dual\<close> is kept whatever comes in, and an incoming non-empty
  family that differs from a stored non-dual one makes the stored family \<open>dual\<close>.
  Families are compared as the code compares them, without regard to case.
\<close>

theorem C3_family_merge:
  assumes "normalizeMAC (MAC p) \<noteq> []" and "UpdateExisting p"
    and "devices s (normalizeMAC (MAC p)) = Some r"
  shows "\<exists>r'. devices (snd (SaveDevice parse nowStr s p)) (normalizeMAC (MAC p)) = Some r' \<and>
           (\<forall>inc. DeviceType p = Some inc \<and> TrimSpace inc \<noteq> [] \<and>
                  TrimSpace (nullString (dev_device_type r)) = []
                \<longrightarrow> dev_device_type r' = Some (TrimSpace inc)) \<and>
           (EqualFold (TrimSpace (nullString (dev_device_type r))) ''dual''
                \<longrightarrow> dev_device_type r' = Some (TrimSpace (nullString (dev_device_type r)))) \<and>
           (\<forall>inc. DeviceType p = Some inc \<and> TrimSpace inc \<noteq> [] \<and>
                  TrimSpace (nullString (dev_device_type r)) \<noteq> [] \<and>
                  \<not> EqualFold (TrimSpace (nullString (dev_device_type r))) ''dual'' \<and>
                  \<not> EqualFold (TrimSpace (nullString (dev_device_type r))) (TrimSpace inc)
                \<longrightarrow> dev_device_type r' = Some ''dual'')"
  unfolding SaveDevice_update [OF assms]
  by (auto simp: updateRow_def mergeDeviceType_def Let_def
           split: prod.splits option.splits dest: EqualFold_nonempty)

text \<open>
  The scenario of C3: the device stored as \<open>ble\<close> is saved with family \<open>classic\<close> and
  becomes \<open>dual\<close>; saved again with family \<open>ble\<close> it stays \<open>dual\<close>.
\<close>

theorem C3_family_merge_witness:
  "map_option dev_device_type (devices storeBle ''AA:BB:CC:DD:EE:01'') = Some (Some ''ble'') \<and>
   map_option dev_device_type
     (devices (SaveDevices parseTimestamp storeBle
        [([], saveParams ''AA:BB:CC:DD:EE:01'' ''classic'' ''2024-01-01 00:00:10'' True)])
      ''AA:BB:CC:DD:EE:01'') = Some (Some ''dual'') \<and>
   map_option dev_device_type
     (devices (SaveDevices parseTimestamp storeBle
        [([], saveParams ''AA:BB:CC:DD:EE:01'' ''classic'' ''2024-01-01 00:00:10'' True),
         ([], saveParams ''AA:BB:CC:DD:EE:01'' ''ble'' ''2024-01-01 00:00:20'' True)])
      ''AA:BB:CC:DD:EE:01'') = Some (Some ''dual'')"
proof -
  let ?k = "''AA:BB:CC:DD:EE:01''"
  let ?p1 = "saveParams ?k ''classic'' ''2024-01-01 00:00:10'' True"
  let ?p2 = "saveParams ?k ''ble'' ''2024-01-01 00:00:20'' True"
  let ?s1 = "snd (SaveDevice parseTimestamp [] storeBle ?p1)"
  let ?s2 = "snd (SaveDevice parseTimestamp [] ?s1 ?p2)"
  obtain r0 where r0: "devices storeBle ?k = Some r0" and f0: "dev_device_type r0 = Some ''ble''"
    by (simp add: storeBle_def emptyStore_def stubRow_def)
  have k1: "normalizeMAC (MAC ?p1) = ?k" and k2: "normalizeMAC (MAC ?p2) = ?k"
    by code_simp+
  have u1: "UpdateExisting ?p1" and u2: "UpdateExisting ?p2"
    by (simp_all add: saveParams_def)
  have d1: "DeviceType ?p1 = Some ''classic''" by (simp add: saveParams_def)
  have t1: "TrimSpace ''classic'' = ''classic''" and t0: "TrimSpace ''ble'' = ''ble''"
    and t2: "TrimSpace ''dual'' = ''dual''"
    by code_simp+
  have e1: "\<not> EqualFold ''ble'' ''dual''" and e2: "\<not> EqualFold ''ble'' ''classic''"
    and e3: "EqualFold ''dual'' ''dual''"
    by code_simp+
  from C3_family_merge [of ?p1 storeBle r0 parseTimestamp "[]"] r0 k1 u1
  obtain r1 where r1: "devices ?s1 ?k = Some r1"
    and c1: "\<forall>inc. DeviceType ?p1 = Some inc \<and> TrimSpace inc \<noteq> [] \<and>
                  TrimSpace (nullString (dev_device_type r0)) \<noteq> [] \<and>
                  \<not> EqualFold (TrimSpace (nullString (dev_device_type r0))) ''dual'' \<and>
                  \<not> EqualFold (TrimSpace (nullString (dev_device_type r0))) (TrimSpace inc)
                \<longrightarrow> dev_device_type r1 = Some ''dual''"
    by auto
  from c1 d1 f0 t0 t1 e1 e2 have f1: "dev_device_type r1 = Some ''dual''"
    by (simp add: nullString_def)
  from C3_family_merge [of ?p2 ?s1 r1 parseTimestamp "[]"] r1 k2 u2
  obtain r2 where r2: "devices ?s2 ?k = Some r2"
    and c2: "EqualFold (TrimSpace (nullString (dev_device_type r1))) ''dual''
                \<longrightarrow> dev_device_type r2 = Some (TrimSpace (nullString (dev_device_type r1)))"
    by auto
  from c2 f1 t2 e3 have f2: "dev_device_type r2 = Some ''dual''"
    by (simp add: nullString_def)
  from r0 f0 r1 f1 r2 f2 show ?thesis by simp
qed

subsection \<open>The detection counter\<close>

lemma insertDevice_fails: "insertDevice s p mac ts = (Some SqlError, s)"
  by (simp add: insertDevice_def insert_columns_def insert_placeholders_def)

lemma SaveDevice_no_new_row:
  "devices s k = None \<Longrightarrow> devices (snd (SaveDevice parse nowStr s p)) k = None"
  by (auto simp: SaveDevice_def Let_def insertDevice_fails split: option.splits)

lemma updateRow_count:
  "dev_detection_count (updateRow parse p ts r) =
     fst (bumpCount parse (dev_detection_count r) (nullString (dev_last_count_update r)) ts)"
  "dev_last_count_update (updateRow parse p ts r) =
     Some (snd (bumpCount parse (dev_detection_count r) (nullString (dev_last_count_update r)) ts))"
  by (simp_all add: updateRow_def Let_def split: prod.splits)

lemma bumpCount_cases:
  "bumpCount parse c l ts = (c + 1, ts) \<or> bumpCount parse c l ts = (c, l)"
  by (auto simp: bumpCount_def split: option.splits)

text \<open>No call of \<open>SaveDevice\<close> lowers a stored count, and none raises it by more than one.\<close>

lemma SaveDevice_count_mono:
  assumes "devices s k = Some r"
  shows "\<exists>r'. devices (snd (SaveDevice parse nowStr s p)) k = Some r' \<and>
              dev_detection_count r \<le> dev_detection_count r' \<and>
              dev_detection_count r' \<le> dev_detection_count r + 1"
proof (cases "normalizeMAC (MAC p) = k \<and> k \<noteq> [] \<and> UpdateExisting p")
  case True
  let ?ts = "case Timestamp p of None \<Rightarrow> nowStr | Some t \<Rightarrow> t"
  from True assms have "devices (snd (SaveDevice parse nowStr s p)) k = Some (updateRow parse p ?ts r)"
    by (simp add: SaveDevice_def Let_def)
  moreover have "dev_detection_count (updateRow parse p ?ts r) = dev_detection_count r + 1
                 \<or> dev_detection_count (updateRow parse p ?ts r) = dev_detection_count r"
    using bumpCount_cases [of parse "dev_detection_count r" "nullString (dev_last_count_update r)" ?ts]
    by (auto simp: updateRow_count)
  ultimately show ?thesis by auto
next
  case False
  with assms have "devices (snd (SaveDevice parse nowStr s p)) k = Some r"
    by (auto simp: SaveDevice_def Let_def insertDevice_fails split: option.splits)
  then show ?thesis by simp
qed

lemma SaveDevice_inWindow:
  assumes "inWindow parse k lo p" and "k \<noteq> []" and "devices s k = Some r"
  obtains t \<tau> where "Timestamp p = Some t" and "parse t = Some \<tau>" and "lo \<le> \<tau>"
    and "\<tau> < lo + 30 * Minute"
    and "devices (snd (SaveDevice parse nowStr s p)) k = Some (updateRow parse p t r)"
  using assms
  by (auto simp: inWindow_def SaveDevice_def Let_def split: option.splits)

lemma SaveDevices_settled:
  assumes "k \<noteq> []" and "\<forall>q \<in> set ps. inWindow parse k lo (snd q)"
    and "devices s k = Some r" and "dev_last_count_update r = Some l" and "l \<noteq> []"
    and "parse l = Some \<tau>0" and "lo \<le> \<tau>0" and "\<tau>0 < lo + 30 * Minute"
  shows "\<exists>r'. devices (SaveDevices parse s ps) k = Some r' \<and>
              dev_detection_count r' = dev_detection_count r"
  using assms
proof (induction ps arbitrary: s r)
  case Nil
  then show ?case by simp
next
  case (Cons q ps)
  obtain nowStr p where q: "q = (nowStr, p)" by (cases q)
  from Cons.prems q have w: "inWindow parse k lo p" by simp
  from SaveDevice_inWindow [OF w \<open>k \<noteq> []\<close> \<open>devices s k = Some r\<close>, of nowStr]
  obtain t \<tau> where t: "parse t = Some \<tau>" "lo \<le> \<tau>" "\<tau> < lo + 30 * Minute"
    and d: "devices (snd (SaveDevice parse nowStr s p)) k = Some (updateRow parse p t r)"
    by blast
  have b: "bumpCount parse (dev_detection_count r) l t = (dev_detection_count r, l)"
    using Cons.prems t by (simp add: bumpCount_def)
  have c: "dev_detection_count (updateRow parse p t r) = dev_detection_count r"
    and u: "dev_last_count_update (updateRow parse p t r) = Some l"
    using b Cons.prems by (simp_all add: updateRow_count nullString_def)
  from Cons.IH [OF \<open>k \<noteq> []\<close> _ d u \<open>l \<noteq> []\<close> \<open>parse l = Some \<tau>0\<close> \<open>lo \<le> \<tau>0\<close>
      \<open>\<tau>0 < lo + 30 * Minute\<close>]
    Cons.prems(2) c q
  show ?case by simp
qed

text \<open>
  Any run of updates of one row whose timestamps lie in one window of 30 minutes
  raises the count by at most one.
\<close>

lemma SaveDevices_one_bump_per_window:
  assumes "parse [] = None" and "k \<noteq> []" and "\<forall>q \<in> set ps. inWindow parse k lo (snd q)"
    and "devices s k = Some r"
  shows "\<exists>r'. devices (SaveDevices parse s ps) k = Some r' \<and>
              dev_detection_count r \<le> dev_detection_count r' \<and>
              dev_detection_count r' \<le> dev_detection_count r + 1"
  using assms
proof (induction ps arbitrary: s r)
  case Nil
  then show ?case by simp
next
  case (Cons q ps)
  obtain nowStr p where q: "q = (nowStr, p)" by (cases q)
  from Cons.prems q have w: "inWindow parse k lo p" by simp
  from Cons.prems have rest: "\<forall>q \<in> set ps. inWindow parse k lo (snd q)" by simp
  from SaveDevice_inWindow [OF w \<open>k \<noteq> []\<close> \<open>devices s k = Some r\<close>, of nowStr]
  obtain t \<tau> where t: "parse t = Some \<tau>" "lo \<le> \<tau>" "\<tau> < lo + 30 * Minute"
    and d: "devices (snd (SaveDevice parse nowStr s p)) k = Some (updateRow parse p t r)"
    by blast
  let ?r1 = "updateRow parse p t r"
  let ?b = "bumpCount parse (dev_detection_count r) (nullString (dev_last_count_update r)) t"
  from bumpCount_cases
  have "?b = (dev_detection_count r + 1, t)
        \<or> ?b = (dev_detection_count r, nullString (dev_last_count_update r))" .
  then show ?case
  proof
    assume b: "?b = (dev_detection_count r + 1, t)"
    have tn: "t \<noteq> []" using t \<open>parse [] = None\<close> by auto
    have c: "dev_detection_count ?r1 = dev_detection_count r + 1"
      and u: "dev_last_count_update ?r1 = Some t"
      using b by (simp_all add: updateRow_count)
    from SaveDevices_settled [OF \<open>k \<noteq> []\<close> rest d u tn t] c q
    show ?thesis by auto
  next
    assume b: "?b = (dev_detection_count r, nullString (dev_last_count_update r))"
    have c: "dev_detection_count ?r1 = dev_detection_count r"
      using b by (simp add: updateRow_count)
    from Cons.IH [OF \<open>parse [] = None\<close> \<open>k \<noteq> []\<close> rest d] c q
    show ?thesis by auto
  qed
qed

text \<open>
  On the row that the insert path is written to produce (count 1 at T), an update at
  T + 10 min leaves the count at 1 and one at T + 35 min makes it 2 and moves
  \<open>last_count_update\<close>.
\<close>

lemma SaveDevices_scenario_updates:
  "map_option dev_detection_count (devices storeCounted ''AA:BB:CC:DD:EE:01'') = Some 1 \<and>
   map_option dev_detection_count
     (devices (SaveDevices parseTimestamp storeCounted
        [([], saveParams ''AA:BB:CC:DD:EE:01'' ''ble'' ''2024-01-01 00:10:00'' True)])
      ''AA:BB:CC:DD:EE:01'') = Some 1 \<and>
   map_option (\<lambda>r. (dev_detection_count r, dev_last_count_update r))
     (devices (SaveDevices parseTimestamp storeCounted
        [([], saveParams ''AA:BB:CC:DD:EE:01'' ''ble'' ''2024-01-01 00:10:00'' True),
         ([], saveParams ''AA:BB:CC:DD:EE:01'' ''ble'' ''2024-01-01 00:35:00'' True)])
      ''AA:BB:CC:DD:EE:01'') = Some (2, Some ''2024-01-01 00:35:00'')"
  by code_simp

text \<open>
  C2. The claim's device "inserted at T = 0 with count 1" does not come to exist:
  the INSERT of \<open>SaveDevice\<close> names 23 columns and has 24 placeholders, so the call on a
  store without a row for the address returns the SQL error and stores nothing,
  whether \<open>update_existing\<close> is set or not.
\<close>

theorem C2_insert_stores_nothing:
  "length insert_columns = 23 \<and> insert_placeholders = 24 \<and>
   SaveDevice parse nowStr emptyStore
       (saveParams ''AA:BB:CC:DD:EE:01'' ''ble'' ''2024-01-01 00:00:00'' upd)
     = (Some SqlError, emptyStore)"
proof -
  have k: "normalizeMAC ''AA:BB:CC:DD:EE:01'' = ''AA:BB:CC:DD:EE:01''" by code_simp
  show ?thesis
    by (simp add: SaveDevice_def saveParams_def k insertDevice_fails Let_def emptyStore_def
        insert_columns_def insert_placeholders_def)
qed

subsection \<open>GATT characteristics\<close>

text \<open>
  C6. On an existing characteristic row, an upsert keeps the stored handles, flags,
  hex value and ASCII value wherever the call passes NULL for them, and always
  replaces \<open>read_error\<close> (also by NULL) and \<open>last_read_at\<close> by the call's values.
\<close>

theorem C6_upsert_keeps_non_null:
  assumes "normalizeMAC (gp_MAC p) \<noteq> []" and "TrimSpace (gp_ServiceUUID p) \<noteq> []"
    and "TrimSpace (gp_CharUUID p) \<noteq> []"
    and "gatt_characteristics s
           (normalizeMAC (gp_MAC p), TrimSpace (gp_ServiceUUID p), TrimSpace (gp_CharUUID p)) = Some old"
  shows "\<exists>new. gatt_characteristics (UpsertGattCharacteristic s p)
           (normalizeMAC (gp_MAC p), TrimSpace (gp_ServiceUUID p), TrimSpace (gp_CharUUID p)) = Some new \<and>
         (gp_ServiceHandle p = None \<longrightarrow> gc_service_handle new = gc_service_handle old) \<and>
         (gp_CharHandle p = None \<longrightarrow> gc_char_handle new = gc_char_handle old) \<and>
         (gp_FlagsJSON p = None \<longrightarrow> gc_flags_json new = gc_flags_json old) \<and>
         (gp_ValueHex p = None \<longrightarrow> gc_value_hex new = gc_value_hex old) \<and>
         (gp_ValueASCII p = None \<longrightarrow> gc_value_ascii new = gc_value_ascii old) \<and>
         gc_read_error new = gp_ReadError p \<and>
         gc_last_read_at new = Some (gp_LastReadAt p)"
  using assms
  by (simp add: UpsertGattCharacteristic_def Let_def COALESCE_def optUint16_def)

theorem C6_upsert_keeps_non_null_witness:
  "map_option (\<lambda>r. (gc_service_handle r, gc_char_handle r, gc_flags_json r, gc_value_hex r,
                     gc_value_ascii r, gc_read_error r, gc_last_read_at r))
     (gatt_characteristics
        (UpsertGattCharacteristic charStore
           (charParams ''AA:BB:CC:DD:EE:01'' None None None ''2024-01-01 00:05:00''))
        (''AA:BB:CC:DD:EE:01'', ''0000180f-0000-1000-8000-00805f9b34fb'',
         ''00002a19-0000-1000-8000-00805f9b34fb''))
   = Some (Some 42, Some 42, Some ''64'', Some ''64'', Some ''64'', None,
           Some ''2024-01-01 00:05:00'')"
proof -
  let ?p = "charParams ''AA:BB:CC:DD:EE:01'' None None None ''2024-01-01 00:05:00''"
  let ?k = "(''AA:BB:CC:DD:EE:01'', ''0000180f-0000-1000-8000-00805f9b34fb'',
             ''00002a19-0000-1000-8000-00805f9b34fb'')"
  let ?old = "\<lparr> gc_service_handle = Some 42, gc_char_handle = Some 42,
                 gc_flags_json = Some ''64'', gc_value_hex = Some ''64'',
                 gc_value_ascii = Some ''64'', gc_read_error = Some ''timeout'',
                 gc_last_read_at = Some ''2024-01-01 00:00:00'' \<rparr>"
  have k: "(normalizeMAC (gp_MAC ?p), TrimSpace (gp_ServiceUUID ?p), TrimSpace (gp_CharUUID ?p)) = ?k"
    by code_simp
  have h1: "normalizeMAC (gp_MAC ?p) \<noteq> []" and h2: "TrimSpace (gp_ServiceUUID ?p) \<noteq> []"
    and h3: "TrimSpace (gp_CharUUID ?p) \<noteq> []"
    by code_simp+
  have old: "gatt_characteristics charStore ?k = Some ?old"
    unfolding charStore_def by code_simp
  have nulls: "gp_ServiceHandle ?p = None" "gp_CharHandle ?p = None" "gp_FlagsJSON ?p = None"
    "gp_ValueHex ?p = None" "gp_ValueASCII ?p = None" "gp_ReadError ?p = None"
    "gp_LastReadAt ?p = ''2024-01-01 00:05:00''"
    by (simp_all add: charParams_def)
  from C6_upsert_keeps_non_null [OF h1 h2 h3, of charStore ?old] old k nulls
  show ?thesis by auto
qed

subsection \<open>GPS history\<close>






section \<open>Properties of the type classifier\<close>

lemma cokeon_parse: "parseHexBytes (DataHex cokeonEntry) = cokeonPayload"
  by code_simp

lemma cokeon_payload_fields:
  "length cokeonPayload = 23" "cokeonPayload ! 0 = 0x02" "cokeonPayload ! 1 = 0x15"
  "ToUpper (formatUUID (take 16 (drop 2 cokeonPayload))) = ToUpper (UUID (IBeacon cokeon))"
  "Uint16 (take 2 (drop 18 cokeonPayload)) = Major (IBeacon cokeon)"
  "Uint16 (take 2 (drop 20 cokeonPayload)) = Minor (IBeacon cokeon)"
  by code_simp+

lemma find_cokeon:
  assumes "\<forall>e \<in> set before. CompanyID e \<noteq> 76"
  shows "findManufacturerBytes (before @ cokeonEntry # rest) 76 = cokeonPayload"
  using assms
proof (induction before)
  case Nil
  have "CompanyID cokeonEntry = 76" by (simp add: cokeonEntry_def)
  moreover have "cokeonPayload \<noteq> []" using cokeon_payload_fields(1) by auto
  ultimately show ?case using cokeon_parse by (simp add: Let_def)
next
  case (Cons a before)
  then show ?case by simp
qed

lemma cokeon_matches:
  assumes "\<forall>e \<in> set before. CompanyID e \<noteq> 76"
  shows "patternMatches cokeon svcs (before @ cokeonEntry # rest) name"
proof -
  have c: "word_of_int (AppleCompanyID (IBeacon cokeon)) = (76 :: 16 word)"
    "UUID (IBeacon cokeon) \<noteq> []" "AppleCompanyID (IBeacon cokeon) > 0"
    "pt_Name cokeon \<noteq> []" "RequireServiceUUID cokeon = []"
    by (simp_all add: cokeon_def)
  show ?thesis
    unfolding patternMatches_def iBeaconMatches_def c find_cokeon [OF assms] Let_def
    using c cokeon_payload_fields by simp
qed

text \<open>
  C9. With the pattern \<open>cokeon\<close> in the catalog (after patterns that do not match the
  observation) and the manufacturer entry of company 76 with the 23 payload bytes in
  the observation (after entries of other companies), \<open>DetectTypedDevice\<close> returns
  \<open>cokeon\<close>, whatever the advertised UUIDs and the name: the payload starts with
  02 15, its bytes 2..17 are the UUID of the pattern, and the big-endian fields at 18
  and 20 are the major 42 and the minor 7.
\<close>

theorem C9_ibeacon_cokeon:
  assumes "\<forall>q \<in> set pre. \<not> patternMatches q (svcSet uuids) (before @ cokeonEntry # rest) name"
    and "\<forall>e \<in> set before. CompanyID e \<noteq> 76"
  shows "DetectTypedDevice (pre @ cokeon # post) uuids (before @ cokeonEntry # rest) name = ''cokeon'' \<and>
         findManufacturerBytes (before @ cokeonEntry # rest) 76 = cokeonPayload \<and>
         take 2 cokeonPayload = [0x02, 0x15] \<and>
         formatUUID (take 16 (drop 2 cokeonPayload)) = ''8AEFB031-6C32-486F-825B-E26FA193487D'' \<and>
         Uint16 (take 2 (drop 18 cokeonPayload)) = 42 \<and>
         Uint16 (take 2 (drop 20 cokeonPayload)) = 7"
proof -
  have "detectLoop (pre @ cokeon # post) (svcSet uuids) (before @ cokeonEntry # rest) name
          = pt_Name cokeon"
    using assms(1)
  proof (induction pre)
    case Nil
    then show ?case using cokeon_matches [OF assms(2)] by simp
  next
    case (Cons q pre)
    then show ?case by simp
  qed
  then have "DetectTypedDevice (pre @ cokeon # post) uuids (before @ cokeonEntry # rest) name
               = ''cokeon''"
    by (simp add: DetectTypedDevice_def cokeon_def)
  moreover have "take 2 cokeonPayload = [0x02, 0x15]"
    "formatUUID (take 16 (drop 2 cokeonPayload)) = ''8AEFB031-6C32-486F-825B-E26FA193487D''"
    "Uint16 (take 2 (drop 18 cokeonPayload)) = 42"
    "Uint16 (take 2 (drop 20 cokeonPayload)) = 7"
    by code_simp+
  ultimately show ?thesis using find_cokeon [OF assms(2)] by simp
qed

theorem C9_ibeacon_cokeon_witness:
  "DetectTypedDevice [fiveBytes, cokeon] [''0000fe9f-0000-1000-8000-00805f9b34fb'']
     [microsoftEntry, cokeonEntry] ''Vending'' = ''cokeon''"
proof -
  have h1: "\<forall>q \<in> set [fiveBytes]. \<not> patternMatches q
              (svcSet [''0000fe9f-0000-1000-8000-00805f9b34fb''])
              ([microsoftEntry] @ cokeonEntry # []) ''Vending''"
    by code_simp
  have h2: "\<forall>e \<in> set [microsoftEntry]. CompanyID e \<noteq> 76"
    by code_simp
  from C9_ibeacon_cokeon [OF h1 h2, of "[]"] show ?thesis by simp
qed

section \<open>Properties of the GPS state\<close>

lemma length_pad6: "length (pad6 m) = 6"
  by (simp add: pad6_def)

text \<open>
  C8. With GPS in use, \<open>GPSStringForRecord\<close> returns \<open>lat, lon\<close> while the last fix is
  no older than the freshness timeout, \<open>(lat, lon)\<close> in parentheses once it is older,
  and nothing when no fix was ever received; each coordinate is printed by
  \<open>formatF\<close>, with six decimals.
\<close>

theorem C8_string_for_record:
  "(useGPS st \<and> lastFix st = Some t \<and> now - t \<le> timeout st \<longrightarrow>
      GPSStringForRecord now st = Some (formatF (latestLat st) @ '', '' @ formatF (latestLon st))) \<and>
   (useGPS st \<and> lastFix st = Some t \<and> now - t > timeout st \<longrightarrow>
      GPSStringForRecord now st =
        Some (''('' @ formatF (latestLat st) @ '', '' @ formatF (latestLon st) @ '')'')) \<and>
   (lastFix st = None \<longrightarrow> GPSStringForRecord now st = None) \<and>
   (\<exists>sign whole. formatF x = sign @ whole @ ''.'' @ pad6 (roundHalfEven (\<bar>x\<bar> * 1000000) mod 1000000)
        \<and> length (pad6 (roundHalfEven (\<bar>x\<bar> * 1000000) mod 1000000)) = 6)"
  by (auto simp: GPSStringForRecord_def formatF_def Let_def length_pad6)

text \<open>
  The scenario of C8: timeout 300 s, a fix 37.0, -122.0 at T = 0; the string at
  T = 100 s, the string at T = 400 s, and a state that never had a fix.
\<close>

theorem C8_string_for_record_witness:
  "GPSStringForRecord (100 * Second) (updateFix 0 37 (-122) (NewState True (300 * Second)))
     = Some ''37.000000, -122.000000'' \<and>
   GPSStringForRecord (400 * Second) (updateFix 0 37 (-122) (NewState True (300 * Second)))
     = Some ''(37.000000, -122.000000)'' \<and>
   GPSStringForRecord (400 * Second) (NewState True (300 * Second)) = None"
proof -
  let ?st = "updateFix 0 37 (-122) (NewState True (300 * Second))"
  have st: "useGPS ?st" "lastFix ?st = Some 0" "timeout ?st = 300 * Second"
    "latestLat ?st = 37" "latestLon ?st = -122"
    by (simp_all add: updateFix_def NewState_def)
  have fresh: "100 * Second - 0 \<le> timeout ?st" and stale: "400 * Second - 0 > timeout ?st"
    by (simp_all add: updateFix_def NewState_def Second_def)
  have f: "formatF 37 = ''37.000000''" "formatF (-122) = ''-122.000000''"
    by code_simp+
  have never: "lastFix (NewState True (300 * Second)) = None"
    by (simp add: NewState_def)
  from C8_string_for_record [of ?st 0 "100 * Second"] st(1,2) fresh
  have a: "GPSStringForRecord (100 * Second) ?st = Some ''37.000000, -122.000000''"
    by (simp add: st f)
  from C8_string_for_record [of ?st 0 "400 * Second"] st(1,2) stale
  have b: "GPSStringForRecord (400 * Second) ?st = Some ''(37.000000, -122.000000)''"
    by (simp add: st f)
  from C8_string_for_record [of "NewState True (300 * Second)" 0 "400 * Second"] never
  have c: "GPSStringForRecord (400 * Second) (NewState True (300 * Second)) = None"
    by simp
  from a b c show ?thesis by simp
qed

section \<open>Properties of the discovery loop\<close>

subsection \<open>What the store operations do to the tables\<close>

lemma SaveDevice_devices:
  "devices (snd (SaveDevice parse nowStr st p)) k =
     map_option (\<lambda>r. if k = normalizeMAC (MAC p) \<and> k \<noteq> [] \<and> UpdateExisting p
                       then updateRow parse p (case Timestamp p of None \<Rightarrow> nowStr | Some t \<Rightarrow> t) r
                       else r) (devices st k)"
  by (cases "devices st k") (auto simp: SaveDevice_def Let_def insertDevice_fails split: option.splits)

lemma SaveDevice_gatt: "gatt_services (snd (SaveDevice parse nowStr st p)) = gatt_services st"
  by (auto simp: SaveDevice_def Let_def insertDevice_fails split: option.splits)

lemma UpdateDeviceGPS_devices:
  "devices (UpdateDeviceGPS st mac g) k =
     map_option (\<lambda>r. if k = normalizeMAC mac \<and> k \<noteq> [] \<and> TrimSpace g \<noteq> []
                       then r\<lparr> dev_gps := Some (TrimSpace g) \<rparr> else r) (devices st k)"
  by (cases "devices st k") (auto simp: UpdateDeviceGPS_def Let_def split: option.splits)

lemma UpdateDeviceGPS_gatt: "gatt_services (UpdateDeviceGPS st mac g) = gatt_services st"
  by (auto simp: UpdateDeviceGPS_def Let_def split: option.splits)

lemma UpdateDeviceMarkedType_devices:
  "devices (UpdateDeviceMarkedType st mac m) k =
     map_option (\<lambda>r. if k = normalizeMAC mac \<and> k \<noteq> [] \<and> TrimSpace m \<noteq> []
                       then r\<lparr> dev_type := Some (TrimSpace m) \<rparr> else r) (devices st k)"
  by (cases "devices st k") (auto simp: UpdateDeviceMarkedType_def Let_def split: option.splits)

lemma UpdateDeviceMarkedType_gatt:
  "gatt_services (UpdateDeviceMarkedType st mac m) = gatt_services st"
  by (auto simp: UpdateDeviceMarkedType_def Let_def split: option.splits)

lemma UpdateDeviceLastAdvID_devices:
  "devices (UpdateDeviceLastAdvID st mac i) k =
     map_option (\<lambda>r. if k = normalizeMAC mac \<and> k \<noteq> [] \<and> i > 0
                       then r\<lparr> dev_last_adv_id := Some i \<rparr> else r) (devices st k)"
  by (cases "devices st k") (auto simp: UpdateDeviceLastAdvID_def Let_def split: option.splits)

lemma UpdateDeviceLastAdvID_gatt:
  "gatt_services (UpdateDeviceLastAdvID st mac i) = gatt_services st"
  by (auto simp: UpdateDeviceLastAdvID_def Let_def split: option.splits)

lemma Record_devices:
  "devices (snd (RecordDeviceGPSHistoryIfChanged a b st sid mac ts lat lon g c src)) = devices st"
  by (auto simp: RecordDeviceGPSHistoryIfChanged_def Let_def split: option.splits)

lemma Record_gatt:
  "gatt_services (snd (RecordDeviceGPSHistoryIfChanged a b st sid mac ts lat lon g c src))
     = gatt_services st"
  by (auto simp: RecordDeviceGPSHistoryIfChanged_def Let_def split: option.splits)

lemma InsertAdvertisement_devices:
  "devices (snd (InsertAdvertisement st p)) k =
     (if k = normalizeMAC (ap_MAC p) \<and> k \<noteq> [] \<and> devices st k = None
      then Some (stubRow p (devices_seq st + 1)) else devices st k)"
  by (auto simp: InsertAdvertisement_def Let_def split: option.splits)

lemma InsertAdvertisement_gatt: "gatt_services (snd (InsertAdvertisement st p)) = gatt_services st"
  by (auto simp: InsertAdvertisement_def Let_def split: option.splits)

lemma UpsertClassicInfo_devices: "devices (UpsertClassicInfo st mac x) = devices st"
  by (auto simp: UpsertClassicInfo_def Let_def split: option.splits)

lemma UpsertClassicInfo_gatt: "gatt_services (UpsertClassicInfo st mac x) = gatt_services st"
  by (auto simp: UpsertClassicInfo_def Let_def split: option.splits)

lemma InsertClassicDiscovery_devices: "devices (InsertClassicDiscovery st p) = devices st"
  by (auto simp: InsertClassicDiscovery_def Let_def)

lemma InsertClassicDiscovery_gatt: "gatt_services (InsertClassicDiscovery st p) = gatt_services st"
  by (auto simp: InsertClassicDiscovery_def Let_def)

lemmas store_gatt =
  SaveDevice_gatt UpdateDeviceGPS_gatt UpdateDeviceMarkedType_gatt UpdateDeviceLastAdvID_gatt
  Record_gatt InsertAdvertisement_gatt UpsertClassicInfo_gatt InsertClassicDiscovery_gatt

lemma HasGattServices_cong:
  "gatt_services st' = gatt_services st \<Longrightarrow> HasGattServices st' mac = HasGattServices st mac"
  by (simp add: HasGattServices_def)

subsection \<open>What the stages of an observation leave alone\<close>

lemma gpsWrite_frame:
  "queue (gpsWrite env sid now mac g s) = queue s"
  "inFlight (gpsWrite env sid now mac g s) = inFlight s"
  "lastConnAttempt (gpsWrite env sid now mac g s) = lastConnAttempt s"
  "seenCount (gpsWrite env sid now mac g s) = seenCount s"
  "console (gpsWrite env sid now mac g s) = console s"
  "lastDeviceWrite (gpsWrite env sid now mac g s) = lastDeviceWrite s"
  "lastAdvWrite (gpsWrite env sid now mac g s) = lastAdvWrite s"
  "lastMarked (gpsWrite env sid now mac g s) = lastMarked s"
  "gatt_services (store (gpsWrite env sid now mac g s)) = gatt_services (store s)"
  by (simp_all add: gpsWrite_def Let_def store_gatt split: prod.splits)

lemma markerUpdate_frame:
  "queue (markerUpdate name mac m s) = queue s"
  "inFlight (markerUpdate name mac m s) = inFlight s"
  "lastConnAttempt (markerUpdate name mac m s) = lastConnAttempt s"
  "seenCount (markerUpdate name mac m s) = seenCount s"
  "lastDeviceWrite (markerUpdate name mac m s) = lastDeviceWrite s"
  "lastAdvWrite (markerUpdate name mac m s) = lastAdvWrite s"
  "gatt_services (store (markerUpdate name mac m s)) = gatt_services (store s)"
  by (simp_all add: markerUpdate_def Let_def Linef_def store_gatt)

lemma throttledWrite_frame:
  "queue (throttledWrite env sid now name mac gpsStr m s) = queue s"
  "inFlight (throttledWrite env sid now name mac gpsStr m s) = inFlight s"
  "lastConnAttempt (throttledWrite env sid now name mac gpsStr m s) = lastConnAttempt s"
  "seenCount (throttledWrite env sid now name mac gpsStr m s) = seenCount s"
  "lastDeviceWrite (throttledWrite env sid now name mac gpsStr m s) = lastDeviceWrite s"
  "lastAdvWrite (throttledWrite env sid now name mac gpsStr m s) = lastAdvWrite s"
  "gatt_services (store (throttledWrite env sid now name mac gpsStr m s)) = gatt_services (store s)"
  by (simp_all add: throttledWrite_def Let_def markerUpdate_frame gpsWrite_frame
        split: option.splits)

lemma fullWrite_frame:
  "queue (fullWrite parse env ad sid tag now name mac bd gpsStr m s) = queue s"
  "inFlight (fullWrite parse env ad sid tag now name mac bd gpsStr m s) = inFlight s"
  "lastConnAttempt (fullWrite parse env ad sid tag now name mac bd gpsStr m s) = lastConnAttempt s"
  "seenCount (fullWrite parse env ad sid tag now name mac bd gpsStr m s) = seenCount s"
  "lastAdvWrite (fullWrite parse env ad sid tag now name mac bd gpsStr m s) = lastAdvWrite s"
  "gatt_services (store (fullWrite parse env ad sid tag now name mac bd gpsStr m s))
     = gatt_services (store s)"
  by (simp_all add: fullWrite_def Let_def markerUpdate_frame gpsWrite_frame Linef_def store_gatt
        split: option.splits)

lemma advWrite_frame:
  "queue (advWrite cfg env sid now mac bd s) = queue s"
  "inFlight (advWrite cfg env sid now mac bd s) = inFlight s"
  "lastConnAttempt (advWrite cfg env sid now mac bd s) = lastConnAttempt s"
  "seenCount (advWrite cfg env sid now mac bd s) = seenCount s"
  "console (advWrite cfg env sid now mac bd s) = console s"
  "lastDeviceWrite (advWrite cfg env sid now mac bd s) = lastDeviceWrite s"
  by (simp_all add: advWrite_def Let_def split: prod.splits)

lemma advWrite_gatt:
  "gatt_services (store (advWrite cfg env sid now mac bd s)) = gatt_services (store s)"
proof -
  have "gatt_services (if i > 0 then UpdateDeviceLastAdvID st mac i else st) = gatt_services st"
    for i st
    by (simp add: store_gatt)
  then show ?thesis
    using InsertAdvertisement_gatt
    by (auto simp: advWrite_def Let_def split: prod.splits) (metis snd_conv)+
qed

lemma classicWrite_frame:
  "queue (classicWrite cfg env sid now mac bd s) = queue s"
  "inFlight (classicWrite cfg env sid now mac bd s) = inFlight s"
  "lastConnAttempt (classicWrite cfg env sid now mac bd s) = lastConnAttempt s"
  "seenCount (classicWrite cfg env sid now mac bd s) = seenCount s"
  "console (classicWrite cfg env sid now mac bd s) = console s"
  "lastDeviceWrite (classicWrite cfg env sid now mac bd s) = lastDeviceWrite s"
  "lastAdvWrite (classicWrite cfg env sid now mac bd s) = lastAdvWrite s"
  "gatt_services (store (classicWrite cfg env sid now mac bd s)) = gatt_services (store s)"
  "devices (store (classicWrite cfg env sid now mac bd s)) = devices (store s)"
  by (simp_all add: classicWrite_def Let_def store_gatt UpsertClassicInfo_devices
        InsertClassicDiscovery_devices)
lemma sighting_frame:
  "queue (sighting ad mac bd s) = queue s"
  "inFlight (sighting ad mac bd s) = inFlight s"
  "lastConnAttempt (sighting ad mac bd s) = lastConnAttempt s"
  "seenCount (sighting ad mac bd s) = (seenCount s)(mac \<mapsto> getInt (seenCount s) mac + 1)"
  "lastDeviceWrite (sighting ad mac bd s) = lastDeviceWrite s"
  "lastAdvWrite (sighting ad mac bd s) = lastAdvWrite s"
  "lastGPSVal (sighting ad mac bd s) = lastGPSVal s"
  "lastGPSWrite (sighting ad mac bd s) = lastGPSWrite s"
  "store (sighting ad mac bd s) = store s"
  by (simp_all add: sighting_def Let_def Linef_def)

lemma deviceWrite_frame:
  "queue (deviceWrite parse pats cfg env ad sid tag now mac bd s) = queue s"
  "inFlight (deviceWrite parse pats cfg env ad sid tag now mac bd s) = inFlight s"
  "lastConnAttempt (deviceWrite parse pats cfg env ad sid tag now mac bd s) = lastConnAttempt s"
  "seenCount (deviceWrite parse pats cfg env ad sid tag now mac bd s) = seenCount s"
  "lastAdvWrite (deviceWrite parse pats cfg env ad sid tag now mac bd s) = lastAdvWrite s"
  "gatt_services (store (deviceWrite parse pats cfg env ad sid tag now mac bd s))
     = gatt_services (store s)"
  by (simp_all add: deviceWrite_def Let_def throttledWrite_frame fullWrite_frame)

lemma observeWrites_frame:
  "queue (observeWrites parse pats cfg env ad sid tag now mac bd s) = queue s"
  "inFlight (observeWrites parse pats cfg env ad sid tag now mac bd s) = inFlight s"
  "lastConnAttempt (observeWrites parse pats cfg env ad sid tag now mac bd s) = lastConnAttempt s"
  "seenCount (observeWrites parse pats cfg env ad sid tag now mac bd s)
     = (seenCount s)(mac \<mapsto> getInt (seenCount s) mac + 1)"
  "gatt_services (store (observeWrites parse pats cfg env ad sid tag now mac bd s))
     = gatt_services (store s)"
  by (simp_all add: observeWrites_def classicWrite_frame advWrite_frame advWrite_gatt
        deviceWrite_frame sighting_frame)

subsection \<open>Connection scheduling\<close>

lemma scheduleConnect_seenCount: "seenCount (scheduleConnect cfg now mac bd s) = seenCount s"
  by (simp add: scheduleConnect_def Let_def)

lemma scheduleConnect_skip:
  assumes "bluezTypeToDeviceType bd = ''classic'' \<or>
           bd_RSSI bd = None \<or> (\<exists>r. bd_RSSI bd = Some r \<and> r < ConnectRSSIMin cfg) \<or>
           getInt (seenCount s) mac < 2 \<or>
           HasGattServices (store s) mac \<or>
           getBool (inFlight s) mac \<or>
           (\<exists>t. lastConnAttempt s mac = Some t \<and> now - t < ConnectCooldown cfg)"
  shows "scheduleConnect cfg now mac bd s = s"
  using assms by (auto simp: scheduleConnect_def)

lemma scheduleConnect_go:
  assumes "\<not> (bluezTypeToDeviceType bd = ''classic'' \<or>
           bd_RSSI bd = None \<or> (\<exists>r. bd_RSSI bd = Some r \<and> r < ConnectRSSIMin cfg) \<or>
           getInt (seenCount s) mac < 2 \<or>
           HasGattServices (store s) mac \<or>
           getBool (inFlight s) mac \<or>
           (\<exists>t. lastConnAttempt s mac = Some t \<and> now - t < ConnectCooldown cfg))"
  shows "scheduleConnect cfg now mac bd s =
           (if length (queue s) < ConnectQueueSize cfg
            then s\<lparr> lastConnAttempt := (lastConnAttempt s)(mac \<mapsto> now),
                    inFlight := (inFlight s)(mac \<mapsto> True),
                    queue := queue s @ [mac] \<rparr>
            else s\<lparr> lastConnAttempt := (lastConnAttempt s)(mac \<mapsto> now),
                    inFlight := (inFlight s)(mac := None) \<rparr>)"
proof -
  from assms have a: "bluezTypeToDeviceType bd \<noteq> ''classic''"
    "\<not> (case bd_RSSI bd of None \<Rightarrow> True | Some r \<Rightarrow> r < ConnectRSSIMin cfg)"
    "\<not> getInt (seenCount s) mac < 2" "\<not> HasGattServices (store s) mac"
    "\<not> getBool (inFlight s) mac"
    "\<not> (case lastConnAttempt s mac of None \<Rightarrow> False | Some t \<Rightarrow> now - t < ConnectCooldown cfg)"
    by (auto split: option.splits)
  show ?thesis
    unfolding scheduleConnect_def Let_def using a by simp
qed

text \<open>
  C1. For an observation of the address \<open>mac\<close> (normalised, not empty) in a tick at
  \<open>now\<close>: nothing is put on the connect queue when the device is classified as
  classic, when its RSSI is absent or below -75, when the address has been seen fewer
  than twice (this sighting counted), when the store has GATT services for it, when a
  connect job for it is in flight, or when its last connect attempt is less than 30
  minutes old. When none of these holds and the queue of 8192 places is full, the
  queue stays as it is and the address is not marked in flight; when the queue has
  room, the address is appended and marked.
\<close>

theorem C1_connect_gate:
  assumes "ToUpper (TrimSpace mac0) = mac" and "mac \<noteq> []"
    and "observe parse patterns adapterID sessionID tag now s (env, mac0, bd) = s'"
  shows "(bluezTypeToDeviceType bd = ''classic'' \<or>
          bd_RSSI bd = None \<or> (\<exists>r. bd_RSSI bd = Some r \<and> r < -75) \<or>
          getInt (seenCount s') mac < 2 \<or>
          HasGattServices (store s) mac \<or>
          getBool (inFlight s) mac \<or>
          (\<exists>t. lastConnAttempt s mac = Some t \<and> now - t < 30 * Minute)
            \<longrightarrow> queue s' = queue s \<and> inFlight s' = inFlight s) \<and>
         (\<not> (bluezTypeToDeviceType bd = ''classic'' \<or>
          bd_RSSI bd = None \<or> (\<exists>r. bd_RSSI bd = Some r \<and> r < -75) \<or>
          getInt (seenCount s') mac < 2 \<or>
          HasGattServices (store s) mac \<or>
          getBool (inFlight s) mac \<or>
          (\<exists>t. lastConnAttempt s mac = Some t \<and> now - t < 30 * Minute))
            \<longrightarrow> (if length (queue s) < 8192
                 then queue s' = queue s @ [mac] \<and> inFlight s' = (inFlight s)(mac \<mapsto> True)
                 else queue s' = queue s \<and> inFlight s' = (inFlight s)(mac := None)) \<and>
                lastConnAttempt s' = (lastConnAttempt s)(mac \<mapsto> now))"
    (is "(?B \<longrightarrow> ?X) \<and> (\<not> ?B \<longrightarrow> ?Y)")
proof -
  let ?cfg = defaultBlueZConfig
  let ?s5 = "observeWrites parse patterns ?cfg env adapterID sessionID tag now mac bd s"
  let ?blocked = "bluezTypeToDeviceType bd = ''classic'' \<or>
           bd_RSSI bd = None \<or> (\<exists>r. bd_RSSI bd = Some r \<and> r < ConnectRSSIMin ?cfg) \<or>
           getInt (seenCount ?s5) mac < 2 \<or>
           HasGattServices (store ?s5) mac \<or>
           getBool (inFlight ?s5) mac \<or>
           (\<exists>t. lastConnAttempt ?s5 mac = Some t \<and> now - t < ConnectCooldown ?cfg)"
  have s': "s' = scheduleConnect ?cfg now mac bd ?s5"
    using assms by (simp add: observe_def Let_def)
  have cfg: "ConnectRSSIMin ?cfg = -75" "ConnectCooldown ?cfg = 30 * Minute"
    "ConnectQueueSize ?cfg = 8192"
    by (simp_all add: defaultBlueZConfig_def)
  have c: "getInt (seenCount s') mac = getInt (seenCount ?s5) mac"
    by (simp add: s' scheduleConnect_seenCount)
  have h: "HasGattServices (store ?s5) mac = HasGattServices (store s) mac"
    by (rule HasGattServices_cong) (rule observeWrites_frame)
  have fr: "queue ?s5 = queue s" "inFlight ?s5 = inFlight s"
    "lastConnAttempt ?s5 = lastConnAttempt s"
    by (rule observeWrites_frame)+
  have eq: "?blocked \<longleftrightarrow> ?B"
    unfolding c h fr cfg by (rule refl)
  show ?thesis
  proof (cases ?blocked)
    case True
    then have "s' = ?s5" unfolding s' by (rule scheduleConnect_skip)
    with fr have x: ?X by simp
    from True have b: ?B unfolding eq .
    from b x show ?thesis by blast
  next
    case False
    then have "s' = (if length (queue ?s5) < ConnectQueueSize ?cfg
            then ?s5\<lparr> lastConnAttempt := (lastConnAttempt ?s5)(mac \<mapsto> now),
                    inFlight := (inFlight ?s5)(mac \<mapsto> True),
                    queue := queue ?s5 @ [mac] \<rparr>
            else ?s5\<lparr> lastConnAttempt := (lastConnAttempt ?s5)(mac \<mapsto> now),
                    inFlight := (inFlight ?s5)(mac := None) \<rparr>)"
      unfolding s' by (rule scheduleConnect_go)
    then have y: ?Y
      by (simp add: fr cfg)
    from False have nb: "\<not> ?B" unfolding eq .
    from nb y show ?thesis by blast
  qed
qed

subsection \<open>Names\<close>

lemma dropWhile_trimmed:
  "dropWhile P (rev (dropWhile P (rev (dropWhile P s)))) = rev (dropWhile P (rev (dropWhile P s)))"
proof (cases "rev (dropWhile P (rev (dropWhile P s)))")
  case Nil
  show ?thesis unfolding Nil by simp
next
  case (Cons a us)
  let ?t = "dropWhile P s"
  have "rev ?t = takeWhile P (rev ?t) @ dropWhile P (rev ?t)" by simp
  then have "?t = rev (dropWhile P (rev ?t)) @ rev (takeWhile P (rev ?t))"
    by (metis rev_append rev_rev_ident)
  with Cons have t: "?t = a # us @ rev (takeWhile P (rev ?t))" by simp
  then have "?t \<noteq> []" and "hd ?t = a" by (metis list.distinct(1), metis list.sel(1))
  with hd_dropWhile [of P s] have "\<not> P a" by simp
  then show ?thesis unfolding Cons by simp
qed

lemma TrimSpace_idem: "TrimSpace (TrimSpace s) = TrimSpace s"
  by (simp add: TrimSpace_def dropWhile_trimmed)

lemma SafeName_unnamed: "unnamed n \<Longrightarrow> SafeName n = ''Unknown''"
  by (auto simp: unnamed_def SafeName_def IsMACAddress_def TrimSpace_idem Let_def)

lemma SafeName_named: "\<not> unnamed n \<Longrightarrow> SafeName n = TrimSpace n"
  by (auto simp: unnamed_def SafeName_def IsMACAddress_def TrimSpace_idem Let_def)
lemma namesFrom_refl: "devices st' = devices st \<Longrightarrow> namesFrom n st st'"
  by (simp add: namesFrom_def)

lemma namesFrom_trans:
  assumes ab: "namesFrom n a b" and bc: "namesFrom n b c"
  shows "namesFrom n a c"
  unfolding namesFrom_def
proof (intro allI impI)
  fix k r' assume c: "devices c k = Some r'"
  with bc have "dev_name r' = Some n \<or> (\<exists>r. devices b k = Some r \<and> dev_name r' = dev_name r)"
    by (simp add: namesFrom_def)
  then show "dev_name r' = Some n \<or> (\<exists>r. devices a k = Some r \<and> dev_name r' = dev_name r)"
  proof
    assume "dev_name r' = Some n"
    then show ?thesis by simp
  next
    assume "\<exists>r. devices b k = Some r \<and> dev_name r' = dev_name r"
    then obtain r where r: "devices b k = Some r" "dev_name r' = dev_name r" by blast
    with ab have "dev_name r = Some n \<or> (\<exists>r0. devices a k = Some r0 \<and> dev_name r = dev_name r0)"
      by (simp add: namesFrom_def)
    with r(2) show ?thesis by auto
  qed
qed

lemma touchesOnly_refl: "devices st' = devices st \<Longrightarrow> touchesOnly key st st'"
  by (simp add: touchesOnly_def)

lemma touchesOnly_trans: "touchesOnly key a b \<Longrightarrow> touchesOnly key b c \<Longrightarrow> touchesOnly key a c"
  by (simp add: touchesOnly_def)

lemma namesFrom_map:
  assumes m: "\<And>k. devices st' k = map_option (f k) (devices st k)"
    and f: "\<And>k r. dev_name (f k r) = Some n \<or> dev_name (f k r) = dev_name r"
  shows "namesFrom n st st'"
  unfolding namesFrom_def
proof (intro allI impI)
  fix k r' assume "devices st' k = Some r'"
  with m [of k] obtain r where r: "devices st k = Some r" "r' = f k r"
    by (cases "devices st k") auto
  with f [of k r] show "dev_name r' = Some n \<or> (\<exists>r. devices st k = Some r \<and> dev_name r' = dev_name r)"
    by auto
qed

lemma touchesOnly_map:
  assumes "\<And>k. devices st' k = map_option (f k) (devices st k)"
    and "\<And>k r. k \<noteq> key \<Longrightarrow> f k r = r"
  shows "touchesOnly key st st'"
  unfolding touchesOnly_def
proof (intro allI impI)
  fix k assume "k \<noteq> key"
  with assms(2) have "f k = (\<lambda>r. r)" by auto
  with assms(1) [of k] show "devices st' k = devices st k" by (simp add: option.map_ident)
qed

lemma updateRow_name: "dev_name (updateRow parse p ts r) = setIf (Name p) (dev_name r)"
  by (simp add: updateRow_def Let_def split: prod.splits)

lemma SaveDevice_names:
  "Name p = Some n \<Longrightarrow> namesFrom n st (snd (SaveDevice parse nowStr st p))"
  by (rule namesFrom_map [OF SaveDevice_devices]) (simp add: updateRow_name setIf_def)

lemma SaveDevice_touches: "touchesOnly (normalizeMAC (MAC p)) st (snd (SaveDevice parse nowStr st p))"
  by (rule touchesOnly_map [OF SaveDevice_devices]) simp

lemma InsertAdvertisement_names: "namesFrom ''Unknown'' st (snd (InsertAdvertisement st p))"
  by (simp add: namesFrom_def InsertAdvertisement_devices stubRow_def)

lemma InsertAdvertisement_touches:
  "touchesOnly (normalizeMAC (ap_MAC p)) st (snd (InsertAdvertisement st p))"
  by (simp add: touchesOnly_def InsertAdvertisement_devices)

lemma UpdateDeviceLastAdvID_names: "namesFrom n st (UpdateDeviceLastAdvID st mac i)"
  by (rule namesFrom_map [OF UpdateDeviceLastAdvID_devices]) simp

lemma UpdateDeviceLastAdvID_touches:
  "touchesOnly (normalizeMAC mac) st (UpdateDeviceLastAdvID st mac i)"
  by (rule touchesOnly_map [OF UpdateDeviceLastAdvID_devices]) simp

lemma gpsWrite_devices:
  "devices (store (gpsWrite env sid now mac g s)) k =
     map_option (\<lambda>r. if k = normalizeMAC mac \<and> k \<noteq> [] \<and> TrimSpace g \<noteq> []
                       then r\<lparr> dev_gps := Some (TrimSpace g) \<rparr> else r) (devices (store s) k)"
  by (simp add: gpsWrite_def Let_def Record_devices UpdateDeviceGPS_devices split: prod.splits)

lemma markerUpdate_devices:
  "devices (store (markerUpdate name mac m s)) k =
     map_option (\<lambda>r. if k = normalizeMAC mac \<and> k \<noteq> [] \<and> TrimSpace m \<noteq> []
                       then r\<lparr> dev_type := Some (TrimSpace m) \<rparr> else r) (devices (store s) k)"
  by (simp add: markerUpdate_def Let_def Linef_def UpdateDeviceMarkedType_devices TrimSpace_idem
        option.map_ident cong: if_cong)

lemma gpsWrite_names: "namesFrom n (store s) (store (gpsWrite env sid now mac g s))"
  by (rule namesFrom_map [OF gpsWrite_devices]) simp

lemma gpsWrite_touches:
  "touchesOnly (normalizeMAC mac) (store s) (store (gpsWrite env sid now mac g s))"
  by (rule touchesOnly_map [OF gpsWrite_devices]) simp

lemma markerUpdate_names: "namesFrom n (store s) (store (markerUpdate name mac m s))"
  by (rule namesFrom_map [OF markerUpdate_devices]) simp

lemma markerUpdate_touches:
  "touchesOnly (normalizeMAC mac) (store s) (store (markerUpdate name mac m s))"
  by (rule touchesOnly_map [OF markerUpdate_devices]) simp

lemma throttledWrite_names:
  "namesFrom n (store s) (store (throttledWrite env sid now name mac gpsStr m s))"
  unfolding throttledWrite_def Let_def
  by (rule namesFrom_trans [OF _ markerUpdate_names])
     (simp add: gpsWrite_names namesFrom_refl split: option.splits)

lemma throttledWrite_touches:
  "touchesOnly (normalizeMAC mac) (store s)
     (store (throttledWrite env sid now name mac gpsStr m s))"
  unfolding throttledWrite_def Let_def
  by (rule touchesOnly_trans [OF _ markerUpdate_touches])
     (simp add: gpsWrite_touches touchesOnly_refl split: option.splits)
lemma printsOnly_refl: "console s' = console s \<Longrightarrow> printsOnly msg s s'"
  by (simp add: printsOnly_def scanLinesAre_def)

lemma printsOnly_trans:
  assumes "printsOnly msg a b" and "printsOnly msg b c"
  shows "printsOnly msg a c"
proof -
  from assms obtain n1 n2 where "console b = console a @ n1" "scanLinesAre msg n1"
    "console c = console b @ n2" "scanLinesAre msg n2"
    unfolding printsOnly_def by blast
  then have "console c = console a @ (n1 @ n2)" "scanLinesAre msg (n1 @ n2)"
    by (auto simp: scanLinesAre_def)
  then show ?thesis unfolding printsOnly_def by blast
qed

lemma printsOnly_scan:
  "label = ''[NEW]'' \<or> label = ''[UPDATE]'' \<Longrightarrow> console s' = console s
     \<Longrightarrow> printsOnly msg s (Linef label msg s')"
  by (simp add: printsOnly_def scanLinesAre_def Linef_def)

lemma printsOnly_mark: "console s' = console s \<Longrightarrow> printsOnly msg s (Linef ''[MARK]'' other s')"
  by (simp add: printsOnly_def scanLinesAre_def Linef_def)

lemma sighting_prints:
  "printsOnly (scanLine (SafeName (bd_Name bd)) ad (bd_RSSI bd)) s (sighting ad mac bd s)"
  by (simp add: sighting_def Let_def printsOnly_scan printsOnly_refl)

lemma markerUpdate_prints: "printsOnly msg s (markerUpdate name mac m s)"
proof -
  have "printsOnly msg s (if lastMarked s mac \<noteq> Some (TrimSpace m)
          then Linef ''[MARK]'' (name @ '' ('' @ mac @ '') type='' @ TrimSpace m)
                 (s\<lparr> lastMarked := (lastMarked s)(mac \<mapsto> TrimSpace m) \<rparr>)
          else s)" (is "printsOnly msg s ?s1")
    by (simp add: printsOnly_mark printsOnly_refl)
  moreover have "printsOnly msg ?s1 (?s1\<lparr> store := UpdateDeviceMarkedType (store ?s1) mac (TrimSpace m) \<rparr>)"
    by (rule printsOnly_refl) simp
  ultimately have "printsOnly msg s (?s1\<lparr> store := UpdateDeviceMarkedType (store ?s1) mac (TrimSpace m) \<rparr>)"
    by (rule printsOnly_trans)
  then show ?thesis
    by (simp add: markerUpdate_def Let_def printsOnly_refl)
qed

lemma throttledWrite_prints: "printsOnly msg s (throttledWrite env sid now name mac gpsStr m s)"
  unfolding throttledWrite_def Let_def
  by (rule printsOnly_trans [OF _ markerUpdate_prints])
     (simp add: printsOnly_refl gpsWrite_frame split: option.splits)

lemma fullWrite_prints:
  "printsOnly (scanLine name ad (bd_RSSI bd)) s
     (fullWrite parse env ad sid tag now name mac bd gpsStr m s)"
proof -
  let ?msg = "scanLine name ad (bd_RSSI bd)"
  let ?s1 = "s\<lparr> lastDeviceWrite := (lastDeviceWrite s)(mac \<mapsto> now) \<rparr>"
  let ?s2 = "if getInt (seenCount ?s1) mac > 1 then Linef ''[UPDATE]'' ?msg ?s1 else ?s1"
  let ?s3 = "case gpsStr of None \<Rightarrow> ?s2
             | Some g \<Rightarrow> if TrimSpace g \<noteq> [] then gpsWrite env sid now mac (TrimSpace g) ?s2 else ?s2"
  let ?s4 = "?s3\<lparr> store := snd (SaveDevice parse (e_ts env) (store ?s3)
                                     (deviceParams env ad sid tag name mac bd gpsStr)) \<rparr>"
  have "printsOnly ?msg s ?s2"
    by (simp add: printsOnly_scan printsOnly_refl)
  moreover have "printsOnly ?msg ?s2 ?s4"
    by (rule printsOnly_refl) (simp add: gpsWrite_frame split: option.splits)
  moreover have "printsOnly ?msg ?s4 (markerUpdate name mac m ?s4)"
    by (rule markerUpdate_prints)
  ultimately have "printsOnly ?msg s (markerUpdate name mac m ?s4)"
    by (blast intro: printsOnly_trans)
  then show ?thesis by (simp add: fullWrite_def Let_def)
qed

lemma gpsWrite_names2:
  "store s = st \<Longrightarrow> namesFrom n st (store (gpsWrite env sid now mac g s))"
  using gpsWrite_names by auto

lemma gpsWrite_touches2:
  "store s = st \<Longrightarrow> touchesOnly (normalizeMAC mac) st (store (gpsWrite env sid now mac g s))"
  using gpsWrite_touches by auto

lemma fullWrite_names:
  "namesFrom name (store s) (store (fullWrite parse env ad sid tag now name mac bd gpsStr m s))"
proof -
  let ?s1 = "s\<lparr> lastDeviceWrite := (lastDeviceWrite s)(mac \<mapsto> now) \<rparr>"
  let ?s2 = "if getInt (seenCount ?s1) mac > 1
             then Linef ''[UPDATE]'' (scanLine name ad (bd_RSSI bd)) ?s1 else ?s1"
  let ?s3 = "case gpsStr of None \<Rightarrow> ?s2
             | Some g \<Rightarrow> if TrimSpace g \<noteq> [] then gpsWrite env sid now mac (TrimSpace g) ?s2 else ?s2"
  let ?s4 = "?s3\<lparr> store := snd (SaveDevice parse (e_ts env) (store ?s3)
                                     (deviceParams env ad sid tag name mac bd gpsStr)) \<rparr>"
  have a: "store ?s2 = store s" by (simp add: Linef_def)
  have "namesFrom name (store ?s2) (store ?s3)"
    by (simp add: gpsWrite_names2 namesFrom_refl Linef_def split: option.splits)
  moreover have "namesFrom name (store ?s3) (store ?s4)"
    by (simp add: SaveDevice_names deviceParams_def)
  moreover have "namesFrom name (store ?s4) (store (markerUpdate name mac m ?s4))"
    by (rule markerUpdate_names)
  ultimately have "namesFrom name (store ?s2) (store (markerUpdate name mac m ?s4))"
    by (blast intro: namesFrom_trans)
  then show ?thesis unfolding a by (simp add: fullWrite_def Let_def)
qed

lemma fullWrite_touches:
  "touchesOnly (normalizeMAC mac) (store s)
     (store (fullWrite parse env ad sid tag now name mac bd gpsStr m s))"
proof -
  let ?s1 = "s\<lparr> lastDeviceWrite := (lastDeviceWrite s)(mac \<mapsto> now) \<rparr>"
  let ?s2 = "if getInt (seenCount ?s1) mac > 1
             then Linef ''[UPDATE]'' (scanLine name ad (bd_RSSI bd)) ?s1 else ?s1"
  let ?s3 = "case gpsStr of None \<Rightarrow> ?s2
             | Some g \<Rightarrow> if TrimSpace g \<noteq> [] then gpsWrite env sid now mac (TrimSpace g) ?s2 else ?s2"
  let ?s4 = "?s3\<lparr> store := snd (SaveDevice parse (e_ts env) (store ?s3)
                                     (deviceParams env ad sid tag name mac bd gpsStr)) \<rparr>"
  let ?k = "normalizeMAC mac"
  have a: "store ?s2 = store s" by (simp add: Linef_def)
  have "touchesOnly ?k (store ?s2) (store ?s3)"
    by (simp add: gpsWrite_touches2 touchesOnly_refl Linef_def split: option.splits)
  moreover have "touchesOnly ?k (store ?s3) (store ?s4)"
    using SaveDevice_touches [of "deviceParams env ad sid tag name mac bd gpsStr"]
    by (simp add: deviceParams_def)
  moreover have "touchesOnly ?k (store ?s4) (store (markerUpdate name mac m ?s4))"
    by (rule markerUpdate_touches)
  ultimately have "touchesOnly ?k (store ?s2) (store (markerUpdate name mac m ?s4))"
    by (blast intro: touchesOnly_trans)
  then show ?thesis unfolding a by (simp add: fullWrite_def Let_def)
qed

lemma advWrite_names: "namesFrom ''Unknown'' (store s) (store (advWrite cfg env sid now mac bd s))"
proof (cases "case lastAdvWrite s mac of None \<Rightarrow> True | Some lastT \<Rightarrow> now - lastT \<ge> AdvInsertMinPeriod cfg")
  case False
  then show ?thesis by (simp add: advWrite_def namesFrom_refl)
next
  case True
  let ?p = "\<lparr> ap_SessionID = Some sid, ap_MAC = mac, ap_Timestamp = e_ts env,
              ap_RSSI = Some (case bd_RSSI bd of None \<Rightarrow> 0 | Some r \<Rightarrow> r), ap_Raw = None,
              ap_JSON = bd_advJSON bd \<rparr>"
  obtain i st1 where ia: "InsertAdvertisement (store s) ?p = (i, st1)" by (cases "InsertAdvertisement (store s) ?p")
  then have st1: "st1 = snd (InsertAdvertisement (store s) ?p)" by simp
  have "namesFrom ''Unknown'' (store s) st1" unfolding st1 by (rule InsertAdvertisement_names)
  moreover have "namesFrom ''Unknown'' st1 (if i > 0 then UpdateDeviceLastAdvID st1 mac i else st1)"
    by (simp add: UpdateDeviceLastAdvID_names namesFrom_refl)
  ultimately have "namesFrom ''Unknown'' (store s) (if i > 0 then UpdateDeviceLastAdvID st1 mac i else st1)"
    by (rule namesFrom_trans)
  with True ia show ?thesis by (simp add: advWrite_def Let_def)
qed

lemma advWrite_touches:
  "touchesOnly (normalizeMAC mac) (store s) (store (advWrite cfg env sid now mac bd s))"
proof (cases "case lastAdvWrite s mac of None \<Rightarrow> True | Some lastT \<Rightarrow> now - lastT \<ge> AdvInsertMinPeriod cfg")
  case False
  then show ?thesis by (simp add: advWrite_def touchesOnly_refl)
next
  case True
  let ?p = "\<lparr> ap_SessionID = Some sid, ap_MAC = mac, ap_Timestamp = e_ts env,
              ap_RSSI = Some (case bd_RSSI bd of None \<Rightarrow> 0 | Some r \<Rightarrow> r), ap_Raw = None,
              ap_JSON = bd_advJSON bd \<rparr>"
  obtain i st1 where ia: "InsertAdvertisement (store s) ?p = (i, st1)" by (cases "InsertAdvertisement (store s) ?p")
  then have st1: "st1 = snd (InsertAdvertisement (store s) ?p)" by simp
  have "touchesOnly (normalizeMAC mac) (store s) st1"
    unfolding st1 using InsertAdvertisement_touches [of ?p] by simp
  moreover have "touchesOnly (normalizeMAC mac) st1 (if i > 0 then UpdateDeviceLastAdvID st1 mac i else st1)"
    by (simp add: UpdateDeviceLastAdvID_touches touchesOnly_refl)
  ultimately have "touchesOnly (normalizeMAC mac) (store s)
                     (if i > 0 then UpdateDeviceLastAdvID st1 mac i else st1)"
    by (rule touchesOnly_trans)
  with True ia show ?thesis by (simp add: advWrite_def Let_def)
qed

lemma scheduleConnect_store: "store (scheduleConnect cfg now mac bd s) = store s"
  "console (scheduleConnect cfg now mac bd s) = console s"
  "lastDeviceWrite (scheduleConnect cfg now mac bd s) = lastDeviceWrite s"
  by (simp_all add: scheduleConnect_def Let_def)

lemma observeWrites_prints:
  "printsOnly (scanLine (SafeName (bd_Name bd)) ad (bd_RSSI bd)) s
     (observeWrites parse pats cfg env ad sid tag now mac bd s)"
proof -
  let ?msg = "scanLine (SafeName (bd_Name bd)) ad (bd_RSSI bd)"
  let ?a = "sighting ad mac bd s"
  let ?b = "deviceWrite parse pats cfg env ad sid tag now mac bd ?a"
  have "printsOnly ?msg s ?a" by (rule sighting_prints)
  moreover have "printsOnly ?msg ?a ?b"
    by (simp add: deviceWrite_def Let_def throttledWrite_prints fullWrite_prints)
  moreover have "printsOnly ?msg ?b
       (classicWrite cfg env sid now mac bd (advWrite cfg env sid now mac bd ?b))"
    by (rule printsOnly_refl) (simp add: classicWrite_frame advWrite_frame)
  ultimately show ?thesis
    unfolding observeWrites_def by (blast intro: printsOnly_trans)
qed

lemma observeWrites_touches:
  "touchesOnly (normalizeMAC mac) (store s)
     (store (observeWrites parse pats cfg env ad sid tag now mac bd s))"
proof -
  let ?k = "normalizeMAC mac"
  let ?a = "sighting ad mac bd s"
  let ?b = "deviceWrite parse pats cfg env ad sid tag now mac bd ?a"
  let ?c = "advWrite cfg env sid now mac bd ?b"
  have "touchesOnly ?k (store s) (store ?a)"
    by (rule touchesOnly_refl) (simp add: sighting_frame)
  moreover have "touchesOnly ?k (store ?a) (store ?b)"
    by (simp add: deviceWrite_def Let_def throttledWrite_touches fullWrite_touches)
  moreover have "touchesOnly ?k (store ?b) (store ?c)" by (rule advWrite_touches)
  moreover have "touchesOnly ?k (store ?c) (store (classicWrite cfg env sid now mac bd ?c))"
    by (rule touchesOnly_refl) (rule classicWrite_frame)
  ultimately show ?thesis
    unfolding observeWrites_def by (blast intro: touchesOnly_trans)
qed

lemma observeWrites_names:
  assumes "SafeName (bd_Name bd) = ''Unknown''"
  shows "namesFrom ''Unknown'' (store s)
           (store (observeWrites parse pats cfg env ad sid tag now mac bd s))"
proof -
  let ?a = "sighting ad mac bd s"
  let ?b = "deviceWrite parse pats cfg env ad sid tag now mac bd ?a"
  let ?c = "advWrite cfg env sid now mac bd ?b"
  have "namesFrom ''Unknown'' (store s) (store ?a)"
    by (rule namesFrom_refl) (simp add: sighting_frame)
  moreover have "namesFrom ''Unknown'' (store ?a) (store ?b)"
    using fullWrite_names [of "''Unknown''"]
    by (simp add: deviceWrite_def Let_def throttledWrite_names assms)
  moreover have "namesFrom ''Unknown'' (store ?b) (store ?c)" by (rule advWrite_names)
  moreover have "namesFrom ''Unknown'' (store ?c) (store (classicWrite cfg env sid now mac bd ?c))"
    by (rule namesFrom_refl) (rule classicWrite_frame)
  ultimately show ?thesis
    unfolding observeWrites_def by (blast intro: namesFrom_trans)
qed
subsection \<open>The throttle window of the device write\<close>

lemma throttledWrite_row:
  assumes "devices (store s) k = Some r"
  shows "\<exists>r'. devices (store (throttledWrite env sid now name mac gpsStr m s)) k = Some r' \<and>
           otherColumns r' = otherColumns r \<and> dev_last_adv_id r' = dev_last_adv_id r \<and>
           (dev_gps r' \<noteq> dev_gps r \<longrightarrow> gpsRefreshDue now mac gpsStr s) \<and>
           (dev_type r' \<noteq> dev_type r \<longrightarrow> TrimSpace m \<noteq> [] \<and> dev_type r' = Some (TrimSpace m))"
proof -
  let ?s1 = "case gpsStr of None \<Rightarrow> s
     | Some g \<Rightarrow>
         if TrimSpace g \<noteq> [] then
           if (if lastGPSVal s mac \<noteq> Some (TrimSpace g) then True
               else (case lastGPSWrite s mac of None \<Rightarrow> True | Some t0 \<Rightarrow> now - t0 \<ge> 10 * Second))
           then gpsWrite env sid now mac (TrimSpace g) s else s
         else s"
  have t: "throttledWrite env sid now name mac gpsStr m s = markerUpdate name mac m ?s1"
    by (simp add: throttledWrite_def Let_def split: option.splits)
  have "\<exists>r1. devices (store ?s1) k = Some r1 \<and> otherColumns r1 = otherColumns r \<and>
          dev_last_adv_id r1 = dev_last_adv_id r \<and> dev_type r1 = dev_type r \<and>
          (dev_gps r1 \<noteq> dev_gps r \<longrightarrow> gpsRefreshDue now mac gpsStr s)"
    using assms
    by (auto simp: gpsWrite_devices gpsRefreshDue_def otherColumns_def split: option.splits)
  then obtain r1 where r1: "devices (store ?s1) k = Some r1" "otherColumns r1 = otherColumns r"
    "dev_last_adv_id r1 = dev_last_adv_id r" "dev_type r1 = dev_type r"
    "dev_gps r1 \<noteq> dev_gps r \<longrightarrow> gpsRefreshDue now mac gpsStr s"
    by blast
  have "\<exists>r2. devices (store (markerUpdate name mac m ?s1)) k = Some r2 \<and>
          otherColumns r2 = otherColumns r1 \<and> dev_last_adv_id r2 = dev_last_adv_id r1 \<and>
          dev_gps r2 = dev_gps r1 \<and>
          (dev_type r2 \<noteq> dev_type r1 \<longrightarrow> TrimSpace m \<noteq> [] \<and> dev_type r2 = Some (TrimSpace m))"
    unfolding markerUpdate_devices r1(1)
    by (simp add: otherColumns_def)
  with r1 show ?thesis unfolding t by auto
qed

lemma advWrite_row:
  assumes "devices (store s) k = Some r"
  shows "\<exists>r'. devices (store (advWrite cfg env sid now mac bd s)) k = Some r' \<and>
           otherColumns r' = otherColumns r \<and> dev_gps r' = dev_gps r \<and> dev_type r' = dev_type r \<and>
           (dev_last_adv_id r' \<noteq> dev_last_adv_id r \<longrightarrow>
              (case lastAdvWrite s mac of None \<Rightarrow> True
                                        | Some t \<Rightarrow> now - t \<ge> AdvInsertMinPeriod cfg))"
proof (cases "case lastAdvWrite s mac of None \<Rightarrow> True | Some lastT \<Rightarrow> now - lastT \<ge> AdvInsertMinPeriod cfg")
  case False
  with assms show ?thesis by (simp add: advWrite_def)
next
  case True
  let ?p = "\<lparr> ap_SessionID = Some sid, ap_MAC = mac, ap_Timestamp = e_ts env,
              ap_RSSI = Some (case bd_RSSI bd of None \<Rightarrow> 0 | Some r \<Rightarrow> r), ap_Raw = None,
              ap_JSON = bd_advJSON bd \<rparr>"
  obtain i st1 where ia: "InsertAdvertisement (store s) ?p = (i, st1)"
    by (cases "InsertAdvertisement (store s) ?p")
  then have st1: "st1 = snd (InsertAdvertisement (store s) ?p)" by simp
  have d1: "devices st1 k = Some r"
    unfolding st1 using assms by (simp add: InsertAdvertisement_devices)
  have "\<exists>r'. devices (if i > 0 then UpdateDeviceLastAdvID st1 mac i else st1) k = Some r' \<and>
           otherColumns r' = otherColumns r \<and> dev_gps r' = dev_gps r \<and> dev_type r' = dev_type r"
    using d1 by (simp add: UpdateDeviceLastAdvID_devices otherColumns_def)
  with True ia show ?thesis by (simp add: advWrite_def Let_def)
qed

text \<open>
  C4, as the code has it. When the address was written in full less than 10 seconds
  before the tick, the observation takes the cheap branch: \<open>lastDeviceWrite\<close> stays,
  \<open>SaveDevice\<close> is not called, and a device row that exists keeps every column but
  \<open>gps\<close>, \<open>type\<close> and \<open>last_adv_id\<close>. The \<open>gps\<close> column changes only when the GPS
  refresh is due, the \<open>type\<close> column only to a marked type that was detected, and the
  \<open>last_adv_id\<close> column only when an advertisement row is due.
\<close>

theorem C4_throttle_window:
  assumes "ToUpper (TrimSpace mac0) = mac" and "mac \<noteq> []"
    and "lastDeviceWrite s mac = Some lastT" and "now - lastT < 10 * Second"
    and "observe parse patterns adapterID sessionID tag now s (env, mac0, bd) = s'"
    and "devices (store s) k = Some r"
  shows "lastDeviceWrite s' = lastDeviceWrite s \<and>
         s' = scheduleConnect defaultBlueZConfig now mac bd
                (classicWrite defaultBlueZConfig env sessionID now mac bd
                  (advWrite defaultBlueZConfig env sessionID now mac bd
                    (throttledWrite env sessionID now (SafeName (bd_Name bd)) mac
                       (GPSStringForRecord (e_clkRecord env) (e_gps env))
                       (DetectTypedDevice patterns (bd_UUIDs bd) (bd_ManufacturerEntries bd)
                          (bd_Name bd))
                       (sighting adapterID mac bd s)))) \<and>
         (\<exists>r'. devices (store s') k = Some r' \<and> otherColumns r' = otherColumns r \<and>
            (dev_gps r' \<noteq> dev_gps r \<longrightarrow>
               gpsRefreshDue now mac (GPSStringForRecord (e_clkRecord env) (e_gps env)) s) \<and>
            (dev_type r' \<noteq> dev_type r \<longrightarrow>
               TrimSpace (DetectTypedDevice patterns (bd_UUIDs bd) (bd_ManufacturerEntries bd)
                            (bd_Name bd)) \<noteq> [] \<and>
               dev_type r' = Some (TrimSpace (DetectTypedDevice patterns (bd_UUIDs bd)
                                      (bd_ManufacturerEntries bd) (bd_Name bd)))) \<and>
            (dev_last_adv_id r' \<noteq> dev_last_adv_id r \<longrightarrow> advDue now mac s))"
proof -
  let ?cfg = defaultBlueZConfig
  let ?gps = "GPSStringForRecord (e_clkRecord env) (e_gps env)"
  let ?m = "DetectTypedDevice patterns (bd_UUIDs bd) (bd_ManufacturerEntries bd) (bd_Name bd)"
  let ?a = "sighting adapterID mac bd s"
  let ?b = "throttledWrite env sessionID now (SafeName (bd_Name bd)) mac ?gps ?m ?a"
  let ?c = "advWrite ?cfg env sessionID now mac bd ?b"
  let ?d = "classicWrite ?cfg env sessionID now mac bd ?c"
  have th: "throttled ?cfg now mac ?a"
    using assms(3,4) by (simp add: throttled_def sighting_frame defaultBlueZConfig_def)
  then have dw: "deviceWrite parse patterns ?cfg env adapterID sessionID tag now mac bd ?a = ?b"
    by (simp add: deviceWrite_def Let_def)
  have s': "s' = scheduleConnect ?cfg now mac bd ?d"
    using assms(1,2,5) by (simp add: observe_def Let_def observeWrites_def dw)
  have l: "lastDeviceWrite s' = lastDeviceWrite s"
    by (simp add: s' scheduleConnect_store classicWrite_frame advWrite_frame
          throttledWrite_frame sighting_frame)
  have da: "devices (store ?a) k = Some r"
    using assms(6) by (simp add: sighting_frame)
  from throttledWrite_row [OF da]
  obtain r1 where r1: "devices (store ?b) k = Some r1" "otherColumns r1 = otherColumns r"
    "dev_last_adv_id r1 = dev_last_adv_id r"
    "dev_gps r1 \<noteq> dev_gps r \<longrightarrow> gpsRefreshDue now mac ?gps ?a"
    "dev_type r1 \<noteq> dev_type r \<longrightarrow> TrimSpace ?m \<noteq> [] \<and> dev_type r1 = Some (TrimSpace ?m)"
    by blast
  from advWrite_row [OF r1(1)]
  obtain r2 where r2: "devices (store ?c) k = Some r2" "otherColumns r2 = otherColumns r1"
    "dev_gps r2 = dev_gps r1" "dev_type r2 = dev_type r1"
    "dev_last_adv_id r2 \<noteq> dev_last_adv_id r1 \<longrightarrow>
       (case lastAdvWrite ?b mac of None \<Rightarrow> True | Some t \<Rightarrow> now - t \<ge> AdvInsertMinPeriod ?cfg)"
    by blast
  have g: "gpsRefreshDue now mac ?gps ?a = gpsRefreshDue now mac ?gps s"
    by (simp add: gpsRefreshDue_def sighting_frame split: option.splits)
  have ad: "(case lastAdvWrite ?b mac of None \<Rightarrow> True | Some t \<Rightarrow> now - t \<ge> AdvInsertMinPeriod ?cfg)
              = advDue now mac s"
    by (simp add: advDue_def throttledWrite_frame sighting_frame defaultBlueZConfig_def
          split: option.splits)
  have ds: "devices (store s') k = Some r2"
    by (simp add: s' scheduleConnect_store classicWrite_frame r2(1))
  from r1 r2 g ad have "otherColumns r2 = otherColumns r \<and>
            (dev_gps r2 \<noteq> dev_gps r \<longrightarrow> gpsRefreshDue now mac ?gps s) \<and>
            (dev_type r2 \<noteq> dev_type r \<longrightarrow> TrimSpace ?m \<noteq> [] \<and> dev_type r2 = Some (TrimSpace ?m)) \<and>
            (dev_last_adv_id r2 \<noteq> dev_last_adv_id r \<longrightarrow> advDue now mac s)"
    by simp
  with ds l s' show ?thesis by blast
qed

subsection \<open>The scenarios of the loop\<close>

lemma stepAt_key: "ToUpper (TrimSpace addrY) = addrY" "addrY \<noteq> []" "obsKey addrY = addrY"
  "normalizeMAC addrY = addrY"
  by (simp_all add: addrY_def obsKey_def) (code_simp+)

text \<open>
  The connect scenario, step by step: nothing is queued at 0 s and 3 s (RSSI -80);
  the address is queued at 6 s (RSSI -60); at 9 s it is in flight and nothing is
  queued; at 21 s the job is done but the last attempt is 15 s old, nothing is
  queued; at 30 min 6 s the address is queued again.
\<close>

lemma gate_scenario_0: "queue gate0 = []"
  unfolding gate0_def stepAt_def obsAt_def addrY_def by code_simp

lemma gate_scenario_3: "queue gate3 = []"
  unfolding gate3_def gate0_def stepAt_def obsAt_def addrY_def by code_simp

lemma gate_scenario_6: "queue gate6 = [addrY] \<and> inFlight gate6 addrY = Some True"
  unfolding gate6_def gate3_def gate0_def stepAt_def obsAt_def addrY_def by code_simp

lemma gate_scenario_9: "queue gate9 = [] \<and> inFlight gate9 addrY = Some True"
  unfolding gate9_def gate6_def gate3_def gate0_def stepAt_def obsAt_def addrY_def by code_simp

lemma gate_scenario_21: "queue gate21 = [] \<and> inFlight gate21 addrY = None"
  unfolding gate21_def gate9_def gate6_def gate3_def gate0_def stepAt_def obsAt_def addrY_def
  by code_simp

lemma gate_scenario_1806: "queue gate1806 = [addrY] \<and> inFlight gate1806 addrY = Some True"
  unfolding gate1806_def gate21_def gate9_def gate6_def gate3_def gate0_def stepAt_def obsAt_def
    addrY_def
  by code_simp
text \<open>
  The witness of C1: the first sighting, with RSSI -80, queues nothing; and a second
  sighting with RSSI -60 that passes every gate while the queue is full leaves the
  queue as it is and the address unmarked.
\<close>

theorem C1_connect_gate_witness:
  "queue gate0 = queue (initialState emptyStore) \<and>
   queue (stepAt (3 * Second) ''2024-01-01 00:00:03'' (-60) fullQueue) = queue fullQueue \<and>
   inFlight (stepAt (3 * Second) ''2024-01-01 00:00:03'' (-60) fullQueue) addrY = None"
proof -
  let ?s0 = "initialState emptyStore"
  have weak: "\<exists>r. bd_RSSI (leDevice addrY (-80)) = Some r \<and> r < -75"
    by (simp add: leDevice_def)
  from C1_connect_gate [OF stepAt_key(1,2), of parseTimestamp "[]" "''hci0''" 1 None 0 ?s0
      "envAt 0 ''2024-01-01 00:00:00''" "leDevice addrY (-80)" gate0] weak
  have a: "queue gate0 = queue ?s0"
    by (simp add: gate0_def stepAt_def obsAt_def)
  let ?s' = "stepAt (3 * Second) ''2024-01-01 00:00:03'' (-60) fullQueue"
  let ?bd = "leDevice addrY (-60)"
  have ty: "bluezTypeToDeviceType ?bd \<noteq> ''classic''" by code_simp
  have rssi: "bd_RSSI ?bd = Some (-60)" by (simp add: leDevice_def)
  have seen: "getInt (seenCount ?s') addrY = 2"
    using stepAt_key(1,2)
    by (simp add: stepAt_def obsAt_def observe_def Let_def scheduleConnect_seenCount
          observeWrites_frame getInt_def fullQueue_def initialState_def)
  have gatt: "\<not> HasGattServices (store fullQueue) addrY"
    by (simp add: HasGattServices_def fullQueue_def initialState_def emptyStore_def Let_def)
  have fl: "\<not> getBool (inFlight fullQueue) addrY" "lastConnAttempt fullQueue addrY = None"
    "\<not> length (queue fullQueue) < 8192" "inFlight fullQueue addrY = None"
    by (simp_all add: fullQueue_def initialState_def getBool_def)
  from C1_connect_gate [OF stepAt_key(1,2), of parseTimestamp "[]" "''hci0''" 1 None "3 * Second"
      fullQueue "envAt (3 * Second) ''2024-01-01 00:00:03''" ?bd ?s'] ty rssi seen gatt fl
  have b: "queue ?s' = queue fullQueue \<and> inFlight ?s' = (inFlight fullQueue)(addrY := None)"
    by (simp add: stepAt_def obsAt_def)
  from a b show ?thesis by simp
qed

text \<open>
  C4 as stated fails on the \<open>last_adv_id\<close> column. The device is written in full at
  24 s; the observation at 30 s falls in the throttle window, and since the last
  advertisement row is 30 s old a new one is inserted and the device row is linked to
  it: the column changes from 1 to 2.
\<close>

theorem C4_counterexample:
  "lastDeviceWrite run24 addrY = Some (24 * Second) \<and>
   30 * Second - 24 * Second < 10 * Second \<and>
   map_option dev_last_adv_id (devices (store run24) addrY) = Some (Some 1) \<and>
   map_option dev_last_adv_id (devices (store run30) addrY) = Some (Some 2)"
  unfolding run30_def run24_def run0_def stepAt_def obsAt_def addrY_def
  by code_simp

text \<open>
  The witness of C4: in that observation at 30 s the row keeps all its other columns,
  and \<open>lastDeviceWrite\<close> stays at 24 s.
\<close>

theorem C4_throttle_window_witness:
  "map_option otherColumns (devices (store run30) addrY)
     = map_option otherColumns (devices (store run24) addrY) \<and>
   devices (store run24) addrY \<noteq> None \<and>
   lastDeviceWrite run30 = lastDeviceWrite run24"
proof -
  have l: "lastDeviceWrite run24 addrY = Some (24 * Second)"
    unfolding run24_def run0_def stepAt_def obsAt_def addrY_def by code_simp
  have w: "30 * Second - 24 * Second < 10 * Second"
    by (simp add: Second_def)
  have "devices (store run24) addrY \<noteq> None"
    unfolding run24_def run0_def stepAt_def obsAt_def addrY_def by code_simp
  then obtain r where r: "devices (store run24) addrY = Some r" by auto
  from C4_throttle_window [OF stepAt_key(1,2) l w _ r, of parseTimestamp "[]" "''hci0''" 1 None
      "envAt (30 * Second) ''2024-01-01 00:00:30''" "leDevice addrY (-80)" run30]
  have "lastDeviceWrite run30 = lastDeviceWrite run24 \<and>
        (\<exists>r'. devices (store run30) addrY = Some r' \<and> otherColumns r' = otherColumns r)"
    by (auto simp: run30_def stepAt_def obsAt_def)
  with r show ?thesis by auto
qed

subsection \<open>Address types\<close>

lemma macTypeSub_values:
  "fst (macTypeSub bd) = ''random'' \<or> fst (macTypeSub bd) = ''public_or_unknown''"
  "snd (macTypeSub bd) = (case bd_AddressType bd of None \<Rightarrow> [] | Some a \<Rightarrow> ToLower (TrimSpace a))"
  by (simp_all add: macTypeSub_def Let_def split: option.splits)

text \<open>
  C5. For a device that the stack reports with the address type \<open>random\<close> and the
  static random address C0:11:22:33:44:55, the discovery loop stores the type
  \<open>random\<close> and the subtype \<open>random\<close>: neither is one of the five values of the
  claim, and the two most significant bits of the address are not looked at.
  \<open>ClassifyAddress\<close>, which the other scanner calls, gives \<open>static_random\<close> for the
  same address.
\<close>

theorem C5_loop_subtype_is_hint:
  "macTypeSub (leDevice addrY (-60)) = (''random'', ''random'') \<and>
   MACType (deviceParams env adapterID sessionID tag name addrY (leDevice addrY (-60)) gpsStr)
     = Some ''random'' \<and>
   MACSubType (deviceParams env adapterID sessionID tag name addrY (leDevice addrY (-60)) gpsStr)
     = Some ''random'' \<and>
   ''random'' \<notin> set subtypes \<and>
   ClassifyAddress True (Some [0xC0, 0x11, 0x22, 0x33, 0x44, 0x55]) = (''random'', ''static_random'')"
proof -
  have m: "macTypeSub (leDevice addrY (-60)) = (''random'', ''random'')" by code_simp
  have s: "''random'' \<notin> set subtypes" by code_simp
  have c: "ClassifyAddress True (Some [0xC0, 0x11, 0x22, 0x33, 0x44, 0x55])
             = (''random'', ''static_random'')"
    by code_simp
  from m s c show ?thesis by (simp add: deviceParams_def)
qed
subsection \<open>The name of an observation\<close>

lemma storedUnknown_step:
  assumes "namesFrom ''Unknown'' st st'" and "storedUnknown st k"
  shows "storedUnknown st' k"
proof (cases "devices st' k")
  case None
  then show ?thesis by (simp add: storedUnknown_def)
next
  case (Some r')
  with assms(1) have "dev_name r' = Some ''Unknown'' \<or>
      (\<exists>r. devices st k = Some r \<and> dev_name r' = dev_name r)"
    by (simp add: namesFrom_def)
  with assms(2) Some show ?thesis by (auto simp: storedUnknown_def)
qed

lemma storedUnknown_other:
  assumes "touchesOnly key st st'" and "k \<noteq> key" and "storedUnknown st k"
  shows "storedUnknown st' k"
  using assms by (simp add: touchesOnly_def storedUnknown_def)

lemma observe_touches:
  "touchesOnly (obsKey mac0) (store s)
     (store (observe parse patterns adapterID sessionID tag now s (env, mac0, bd)))"
  by (simp add: observe_def Let_def scheduleConnect_store obsKey_def observeWrites_touches
        touchesOnly_refl)

lemma observe_names:
  assumes "unnamed (bd_Name bd)"
  shows "namesFrom ''Unknown'' (store s)
           (store (observe parse patterns adapterID sessionID tag now s (env, mac0, bd)))"
  using SafeName_unnamed [OF assms]
  by (simp add: observe_def Let_def scheduleConnect_store observeWrites_names namesFrom_refl)

lemma observe_prints:
  "printsOnly (scanLine (SafeName (bd_Name bd)) adapterID (bd_RSSI bd)) s
     (observe parse patterns adapterID sessionID tag now s (env, mac0, bd))"
proof (cases "ToUpper (TrimSpace mac0) = []")
  case True
  then show ?thesis by (simp add: observe_def printsOnly_refl)
next
  case False
  let ?w = "observeWrites parse patterns defaultBlueZConfig env adapterID sessionID tag now
              (ToUpper (TrimSpace mac0)) bd s"
  have "printsOnly (scanLine (SafeName (bd_Name bd)) adapterID (bd_RSSI bd)) ?w
          (scheduleConnect defaultBlueZConfig now (ToUpper (TrimSpace mac0)) bd ?w)"
    by (rule printsOnly_refl) (rule scheduleConnect_store)
  with observeWrites_prints [of bd adapterID s] False show ?thesis
    by (simp add: observe_def Let_def) (blast intro: printsOnly_trans)
qed

text \<open>
  Over a whole tick: when every observation filed under the key \<open>k\<close> has a blank or
  MAC-like name, a row of \<open>k\<close> that is absent or named \<open>Unknown\<close> before the tick is
  absent or named \<open>Unknown\<close> after it.
\<close>

lemma tick_storedUnknown:
  assumes "\<forall>ob \<in> set snap. obsKey (fst (snd ob)) = k \<longrightarrow> unnamed (bd_Name (snd (snd ob)))"
    and "storedUnknown (store s) k"
  shows "storedUnknown (store (tick parse patterns adapterID sessionID tag now done snap s)) k"
proof -
  have "storedUnknown (store (foldl (observe parse patterns adapterID sessionID tag now) s0 snap)) k"
    if "storedUnknown (store s0) k" for s0
    using assms(1) that
  proof (induction snap arbitrary: s0)
    case Nil
    then show ?case by simp
  next
    case (Cons ob snap)
    obtain env mac0 bd where ob: "ob = (env, mac0, bd)" by (cases ob)
    have "storedUnknown (store (observe parse patterns adapterID sessionID tag now s0 ob)) k"
    proof (cases "obsKey mac0 = k")
      case True
      with Cons.prems(1) ob have "unnamed (bd_Name bd)" by simp
      from storedUnknown_step [OF observe_names [OF this] Cons.prems(2)] ob
      show ?thesis by simp
    next
      case False
      then have "k \<noteq> obsKey mac0" by auto
      from storedUnknown_other [OF observe_touches this Cons.prems(2)] ob
      show ?thesis by simp
    qed
    with Cons.IH Cons.prems(1) show ?case by simp
  qed
  moreover have "storedUnknown (store (drain done s)) k"
    using assms(2) by (simp add: drain_def storedUnknown_def)
  ultimately show ?thesis by (simp add: tick_def)
qed

text \<open>
  C10. For an observation whose local name is blank after trimming, or has the form
  of a MAC address, the name used by the loop is \<open>Unknown\<close>: the lines labelled
  \<open>[NEW]\<close> and \<open>[UPDATE]\<close> that the observation prints carry it, the device save is
  called with it, every device row has afterwards the name \<open>Unknown\<close> or the name it
  had, and the row of the observation, if it was absent or named \<open>Unknown\<close>, is
  absent or named \<open>Unknown\<close> afterwards.
\<close>

theorem C10_unknown_name:
  assumes "TrimSpace (bd_Name bd) = [] \<or> IsMACAddress (bd_Name bd)"
    and "observe parse patterns adapterID sessionID tag now s (env, mac0, bd) = s'"
  shows "SafeName (bd_Name bd) = ''Unknown'' \<and>
         printsOnly (scanLine ''Unknown'' adapterID (bd_RSSI bd)) s s' \<and>
         Name (deviceParams env adapterID sessionID tag (SafeName (bd_Name bd))
                 (ToUpper (TrimSpace mac0)) bd gpsStr) = Some ''Unknown'' \<and>
         namesFrom ''Unknown'' (store s) (store s') \<and>
         (storedUnknown (store s) (obsKey mac0) \<longrightarrow> storedUnknown (store s') (obsKey mac0))"
proof -
  from assms(1) have u: "unnamed (bd_Name bd)" by (simp add: unnamed_def)
  then have n: "SafeName (bd_Name bd) = ''Unknown''" by (rule SafeName_unnamed)
  have p: "printsOnly (scanLine ''Unknown'' adapterID (bd_RSSI bd)) s s'"
    using observe_prints [of bd adapterID s parse patterns sessionID tag now env mac0] assms(2) n
    by simp
  have nf: "namesFrom ''Unknown'' (store s) (store s')"
    using observe_names [OF u] assms(2) by auto
  from n p nf storedUnknown_step [OF nf] show ?thesis
    by (simp add: deviceParams_def)
qed

text \<open>
  The witness of C10: the device that advertises its own address as its name, seen at
  0 s and at 24 s (a full write): the \<open>[NEW]\<close> and \<open>[UPDATE]\<close> lines say \<open>Unknown\<close>,
  and the row exists with the name \<open>Unknown\<close>.
\<close>

theorem C10_unknown_name_witness:
  "SafeName addrY = ''Unknown'' \<and>
   storedUnknown (store run24) addrY \<and> devices (store run24) addrY \<noteq> None \<and>
   console run24 = [(''[NEW]'', ''Unknown (Interface: hci0) RSSI: -80''),
                    (''[UPDATE]'', ''Unknown (Interface: hci0) RSSI: -80'')]"
proof -
  let ?bd = "leDevice addrY (-80)"
  have nm: "TrimSpace (bd_Name ?bd) = [] \<or> IsMACAddress (bd_Name ?bd)"
    unfolding addrY_def by code_simp
  have n0: "bd_Name ?bd = addrY" by (simp add: leDevice_def)
  have e: "storedUnknown (store (initialState emptyStore)) (obsKey addrY)"
    by (simp add: storedUnknown_def initialState_def emptyStore_def)
  from C10_unknown_name [OF nm, of parseTimestamp "[]" "''hci0''" 1 None 0
      "initialState emptyStore" "envAt 0 ''2024-01-01 00:00:00''" addrY run0] e
  have a: "SafeName addrY = ''Unknown''" "storedUnknown (store run0) (obsKey addrY)"
    by (simp_all add: run0_def stepAt_def obsAt_def n0)
  from C10_unknown_name [OF nm, of parseTimestamp "[]" "''hci0''" 1 None "24 * Second"
      run0 "envAt (24 * Second) ''2024-01-01 00:00:24''" addrY run24] a(2)
  have b: "storedUnknown (store run24) (obsKey addrY)"
    by (simp add: run24_def stepAt_def obsAt_def)
  have c: "devices (store run24) addrY \<noteq> None"
    unfolding run24_def run0_def stepAt_def obsAt_def addrY_def by code_simp
  have d: "console run24 = [(''[NEW]'', ''Unknown (Interface: hci0) RSSI: -80''),
                    (''[UPDATE]'', ''Unknown (Interface: hci0) RSSI: -80'')]"
    unfolding run24_def run0_def stepAt_def obsAt_def addrY_def by code_simp
  from a(1) b c d show ?thesis by (simp add: stepAt_key)
qed

text \<open>
  What the failing insert means for the counter in the loop: the row of a new device
  is the minimal one of \<open>InsertAdvertisement\<close>, with count 1 and no
  \<open>last_count_update\<close>, and the first full write, here 24 s later, raises the count
  to 2.
\<close>

lemma loop_count_after_stub:
  "map_option (\<lambda>r. (dev_detection_count r, dev_last_count_update r)) (devices (store run0) addrY)
     = Some (1, None) \<and>
   map_option (\<lambda>r. (dev_detection_count r, dev_last_count_update r)) (devices (store run24) addrY)
     = Some (2, Some ''2024-01-01 00:00:24'')"
  unfolding run24_def run0_def stepAt_def obsAt_def addrY_def by code_simp

end
